theory Spec2Isabelle
  imports Complex_Main "HOL-Library.Multiset" "HOL-Library.List_Lexorder"
begin

section \<open>JavaScript strings\<close>

text \<open>
  A JavaScript string is a sequence of UTF-16 code units; \<open>length\<close>, indexing, \<open>===\<close>,
  \<open>includes\<close>, \<open>split\<close> and the default \<open>sort\<close> all work on code units. A string is
  modelled as the list of its code units, each a natural number. \<open>js\<close> embeds an
  Isabelle literal. Two approximations are made and are the only ones in this section:
  case conversion covers Basic Latin and Latin-1 Supplement (other code units are left
  unchanged), and numbers are exact (integers and rationals) where the source has IEEE
  doubles.
\<close>

type_synonym jsstring = "nat list"

definition js :: "string \<Rightarrow> jsstring" where
  "js s = map of_char s"

definition is_space :: "nat \<Rightarrow> bool" where
  \<comment> \<open>the regular expression class \<open>\s\<close>, which is also what \<open>trim\<close> removes\<close>
  "is_space c \<longleftrightarrow>
     (9 \<le> c \<and> c \<le> 13) \<or> c = 32 \<or> c = 160 \<or> c = 5760 \<or> (8192 \<le> c \<and> c \<le> 8202) \<or>
     c = 8232 \<or> c = 8233 \<or> c = 8239 \<or> c = 8287 \<or> c = 12288 \<or> c = 65279"

definition is_line_terminator :: "nat \<Rightarrow> bool" where
  \<comment> \<open>the code units that the regular expression \<open>.\<close> does not match\<close>
  "is_line_terminator c \<longleftrightarrow> c = 10 \<or> c = 13 \<or> c = 8232 \<or> c = 8233"

definition is_digit :: "nat \<Rightarrow> bool" where
  \<comment> \<open>\<open>\d\<close>\<close>
  "is_digit c \<longleftrightarrow> 48 \<le> c \<and> c \<le> 57"

definition is_upper :: "nat \<Rightarrow> bool" where
  \<comment> \<open>\<open>[A-Z]\<close>\<close>
  "is_upper c \<longleftrightarrow> 65 \<le> c \<and> c \<le> 90"

definition is_lower :: "nat \<Rightarrow> bool" where
  \<comment> \<open>\<open>[a-z]\<close>\<close>
  "is_lower c \<longleftrightarrow> 97 \<le> c \<and> c \<le> 122"

definition is_word :: "nat \<Rightarrow> bool" where
  \<comment> \<open>\<open>\w\<close>, that is \<open>[A-Za-z0-9_]\<close>\<close>
  "is_word c \<longleftrightarrow> is_upper c \<or> is_lower c \<or> is_digit c \<or> c = 95"

definition trim :: "jsstring \<Rightarrow> jsstring" where
  "trim s = rev (dropWhile is_space (rev (dropWhile is_space s)))"

definition lower_unit :: "nat \<Rightarrow> nat" where
  "lower_unit c =
     (if is_upper c \<or> (192 \<le> c \<and> c \<le> 222 \<and> c \<noteq> 215) then c + 32 else c)"

definition toLowerCase :: "jsstring \<Rightarrow> jsstring" where
  "toLowerCase s = map lower_unit s"

definition upper_unit :: "nat \<Rightarrow> jsstring" where
  \<comment> \<open>sharp s becomes SS; micro sign and y with diaeresis leave Latin-1\<close>
  "upper_unit c =
     (if is_lower c \<or> (224 \<le> c \<and> c \<le> 254 \<and> c \<noteq> 247) then [c - 32]
      else if c = 223 then [83, 83]
      else if c = 181 then [924]
      else if c = 255 then [376]
      else [c])"

definition toUpperCase :: "jsstring \<Rightarrow> jsstring" where
  "toUpperCase s = concat (map upper_unit s)"

fun starts_with :: "jsstring \<Rightarrow> jsstring \<Rightarrow> bool" where
  \<comment> \<open>\<open>starts_with p s\<close>: \<open>p\<close> is a prefix of \<open>s\<close>\<close>
  "starts_with [] s = True"
| "starts_with (p # ps) [] = False"
| "starts_with (p # ps) (c # cs) = (p = c \<and> starts_with ps cs)"

fun includes_str :: "jsstring \<Rightarrow> jsstring \<Rightarrow> bool" where
  \<comment> \<open>\<open>s.includes(needle)\<close>\<close>
  "includes_str [] needle = (needle = [])"
| "includes_str (c # cs) needle = (starts_with needle (c # cs) \<or> includes_str cs needle)"

fun split_on :: "(nat \<Rightarrow> bool) \<Rightarrow> jsstring \<Rightarrow> jsstring list" where
  \<comment> \<open>\<open>s.split(sep)\<close> for a separator that is one code unit out of a class\<close>
  "split_on p [] = [[]]"
| "split_on p (c # cs) =
     (if p c then [] # split_on p cs
      else (case split_on p cs of [] \<Rightarrow> [[c]] | r # rs \<Rightarrow> (c # r) # rs))"

fun collapse_ws :: "bool \<Rightarrow> jsstring \<Rightarrow> jsstring" where
  \<comment> \<open>\<open>s.replace(/\s+/g, ' ')\<close>; the flag says that a run of white space is being read\<close>
  "collapse_ws in_run [] = []"
| "collapse_ws in_run (c # cs) =
     (if is_space c then (if in_run then collapse_ws True cs else 32 # collapse_ws True cs)
      else c # collapse_ws False cs)"

definition remove_ws :: "jsstring \<Rightarrow> jsstring" where
  \<comment> \<open>\<open>s.replace(/\s+/g, '')\<close>\<close>
  "remove_ws s = filter (\<lambda>c. \<not> is_space c) s"

definition strip_coefficient :: "jsstring \<Rightarrow> jsstring" where
  \<comment> \<open>\<open>s.replace(/^\d+\s*/, '')\<close>\<close>
  "strip_coefficient s =
     (case s of [] \<Rightarrow> []
      | c # cs \<Rightarrow> if is_digit c then dropWhile is_space (dropWhile is_digit s) else s)"

fun digits_value :: "nat \<Rightarrow> jsstring \<Rightarrow> nat" where
  \<comment> \<open>\<open>parseInt(ds, 10)\<close> on a string of decimal digits, read from the left\<close>
  "digits_value acc [] = acc"
| "digits_value acc (d # ds) = digits_value (10 * acc + (d - 48)) ds"

fun show_nat :: "nat \<Rightarrow> jsstring" where
  \<comment> \<open>a non-negative integer inside a template literal\<close>
  "show_nat n = (if n < 10 then [48 + n] else show_nat (n div 10) @ [48 + n mod 10])"

declare show_nat.simps [simp del]

fun join :: "jsstring \<Rightarrow> jsstring list \<Rightarrow> jsstring" where
  \<comment> \<open>\<open>xs.join(sep)\<close>\<close>
  "join sep [] = []"
| "join sep [x] = x"
| "join sep (x # y # ys) = x @ sep @ join sep (y # ys)"


section \<open>Chemistry evaluation library\<close>

text \<open>The class \<open>ChemistryUtils\<close> of \<open>services/chemistry-utils.ts\<close>.\<close>

record ChemicalEquation =
  reactants :: "jsstring list"
  products :: "jsstring list"
  coefficients :: "nat list"
  isBalanced :: bool

definition subscript_digit :: "nat \<Rightarrow> nat" where
  \<comment> \<open>the table \<open>subscriptMap\<close>: U+2080 .. U+2089 become the digits 0 .. 9\<close>
  "subscript_digit c = (if 8320 \<le> c \<and> c \<le> 8329 then c - 8272 else c)"

definition standardizeFormula :: "jsstring \<Rightarrow> jsstring" where
  "standardizeFormula formula = map subscript_digit (remove_ws formula)"

definition compareFormulas :: "jsstring \<Rightarrow> jsstring \<Rightarrow> bool" where
  "compareFormulas formula1 formula2 \<longleftrightarrow>
     toLowerCase (standardizeFormula formula1) = toLowerCase (standardizeFormula formula2)"

subsection \<open>The regular expression \<open>EQUATION_REGEX\<close>\<close>

text \<open>
  \<open>/^(.+?)\s*[\<rightarrow>=]\s*(.+)$/\<close> is matched by backtracking. The three functions follow the
  three parts of the pattern from the right: the greedy \<open>\s*(.+)$\<close>, then \<open>\s*[\<rightarrow>=]\<close>,
  then the lazy first group, which takes the shortest prefix that lets the rest match.
\<close>

definition is_arrow_or_equals :: "nat \<Rightarrow> bool" where
  \<comment> \<open>\<open>[\<rightarrow>=]\<close>: U+2192 or the equals sign\<close>
  "is_arrow_or_equals c \<longleftrightarrow> c = 8594 \<or> c = 61"

fun products_group :: "jsstring \<Rightarrow> jsstring option" where
  "products_group [] = None"
| "products_group (c # cs) =
     (let here = (if list_all (\<lambda>d. \<not> is_line_terminator d) (c # cs) then Some (c # cs) else None)
      in if is_space c
         then (case products_group cs of Some g \<Rightarrow> Some g | None \<Rightarrow> here)
         else here)"

fun after_reactants :: "jsstring \<Rightarrow> jsstring option" where
  "after_reactants [] = None"
| "after_reactants (c # cs) =
     (if is_space c then after_reactants cs
      else if is_arrow_or_equals c then products_group cs
      else None)"

fun equation_match_from :: "jsstring \<Rightarrow> jsstring \<Rightarrow> (jsstring \<times> jsstring) option" where
  "equation_match_from taken [] = None"
| "equation_match_from taken (c # cs) =
     (if is_line_terminator c then None
      else (case after_reactants cs of
              Some g \<Rightarrow> Some (taken @ [c], g)
            | None \<Rightarrow> equation_match_from (taken @ [c]) cs))"

definition equation_match :: "jsstring \<Rightarrow> (jsstring \<times> jsstring) option" where
  "equation_match s = equation_match_from [] s"

subsection \<open>Parsing an equation\<close>

definition parseCompounds :: "jsstring \<Rightarrow> jsstring list" where
  "parseCompounds compoundsStr =
     filter (\<lambda>compound. length compound > 0)
       (map strip_coefficient
          (filter (\<lambda>compound. length compound > 0)
             (map trim (split_on (\<lambda>c. c = 43) compoundsStr))))"

definition is_side_separator :: "nat \<Rightarrow> bool" where
  \<comment> \<open>\<open>[+=\<rightarrow>\<longrightarrow>]\<close>: plus, equals, U+2192, U+27F6\<close>
  "is_side_separator c \<longleftrightarrow> c = 43 \<or> c = 61 \<or> c = 8594 \<or> c = 10230"

definition leading_integer :: "jsstring \<Rightarrow> nat" where
  \<comment> \<open>\<open>compound.match(/^(\d+)/)\<close>, then \<open>parseInt\<close>, and 1 when there is no match\<close>
  "leading_integer compound =
     (case takeWhile is_digit compound of [] \<Rightarrow> 1 | d # ds \<Rightarrow> digits_value 0 (d # ds))"

definition extractCoefficients :: "jsstring \<Rightarrow> nat list" where
  "extractCoefficients equation =
     map leading_integer (map trim (split_on is_side_separator equation))"

function element_matches :: "jsstring \<Rightarrow> (jsstring \<times> jsstring) list" where
  \<comment> \<open>\<open>[...compound.matchAll(/([A-Z][a-z]?)(\d*)/g)]\<close>: the two groups of every match\<close>
  "element_matches [] = []"
| "element_matches (c # cs) =
     (if is_upper c then
        (let symbol = (case cs of [] \<Rightarrow> [c] | d # ds \<Rightarrow> if is_lower d then [c, d] else [c]);
             rest = drop (length symbol - 1) cs
         in (symbol, takeWhile is_digit rest) # element_matches (dropWhile is_digit rest))
      else element_matches cs)"
  by pat_completeness auto
termination
  by (relation "measure length")
     (auto simp: less_Suc_eq_le intro: order_trans [OF length_dropWhile_le])

definition lookup_count :: "(jsstring \<times> nat) list \<Rightarrow> jsstring \<Rightarrow> nat" where
  \<comment> \<open>\<open>counts[element] || 0\<close>\<close>
  "lookup_count counts element = (case map_of counts element of None \<Rightarrow> 0 | Some n \<Rightarrow> n)"

definition add_count :: "(jsstring \<times> nat) list \<Rightarrow> jsstring \<Rightarrow> nat \<Rightarrow> (jsstring \<times> nat) list" where
  \<comment> \<open>\<open>counts[element] = (counts[element] || 0) + n\<close>; a new key goes last\<close>
  "add_count counts element n =
     (if element \<in> set (map fst counts)
      then map (\<lambda>(k, v). if k = element then (k, v + n) else (k, v)) counts
      else counts @ [(element, n)])"

definition coefficient_at :: "nat list \<Rightarrow> nat \<Rightarrow> nat" where
  \<comment> \<open>\<open>coefficients[index] || 1\<close>: 1 when the index is out of range or the entry is 0\<close>
  "coefficient_at cs index = (if index < length cs \<and> cs ! index \<noteq> 0 then cs ! index else 1)"

definition element_count :: "jsstring \<Rightarrow> nat" where
  \<comment> \<open>\<open>countStr ? parseInt(countStr, 10) : 1\<close>\<close>
  "element_count countStr = (if countStr = [] then 1 else digits_value 0 countStr)"

definition add_compound ::
  "nat list \<Rightarrow> (jsstring \<times> nat) list \<Rightarrow> jsstring \<times> nat \<Rightarrow> (jsstring \<times> nat) list" where
  \<comment> \<open>the body of the outer \<open>forEach\<close> of \<open>getElementCounts\<close>\<close>
  "add_compound cs counts ci =
     (let coefficient = coefficient_at cs (snd ci)
      in foldl (\<lambda>acc (element, countStr). add_count acc element (element_count countStr * coefficient))
           counts (element_matches (fst ci)))"

definition getElementCounts :: "jsstring list \<Rightarrow> nat list \<Rightarrow> (jsstring \<times> nat) list" where
  "getElementCounts compounds cs =
     foldl (add_compound cs) [] (zip compounds [0 ..< length compounds])"

definition checkBalance :: "jsstring list \<Rightarrow> jsstring list \<Rightarrow> nat list \<Rightarrow> bool" where
  "checkBalance rs ps cs =
     (let reactantElements = getElementCounts rs (take (length rs) cs);
          productElements = getElementCounts ps (drop (length rs) cs);
          allElements = remdups (map fst reactantElements @ map fst productElements)
      in list_all (\<lambda>element. lookup_count reactantElements element = lookup_count productElements element)
           allElements)"

definition replace_arrows :: "jsstring \<Rightarrow> jsstring" where
  \<comment> \<open>\<open>s.replace(/[\<rightarrow>\<longrightarrow>]/g, '=')\<close>\<close>
  "replace_arrows s = map (\<lambda>c. if c = 8594 \<or> c = 10230 then 61 else c) s"

definition normalize_equation :: "jsstring \<Rightarrow> jsstring" where
  "normalize_equation equation = trim (replace_arrows (collapse_ws False equation))"

definition parseEquation :: "jsstring \<Rightarrow> ChemicalEquation option" where
  \<comment> \<open>\<open>None\<close> is the source's \<open>null\<close>\<close>
  "parseEquation equation =
     (let normalized = normalize_equation equation
      in case equation_match normalized of
           None \<Rightarrow> None
         | Some (reactantsStr, productsStr) \<Rightarrow>
             (let rs = parseCompounds reactantsStr;
                  ps = parseCompounds productsStr
              in if length rs = 0 \<or> length ps = 0 then None
                 else (let cs = extractCoefficients normalized
                       in Some \<lparr>reactants = rs, products = ps, coefficients = cs,
                                 isBalanced = checkBalance rs ps cs\<rparr>)))"

definition compareEquations :: "jsstring \<Rightarrow> jsstring \<Rightarrow> bool" where
  \<comment> \<open>the default \<open>sort\<close> orders strings by code units; \<open>JSON.stringify\<close> is injective
      on arrays of strings\<close>
  "compareEquations eq1 eq2 =
     (case (parseEquation eq1, parseEquation eq2) of
        (Some parsed1, Some parsed2) \<Rightarrow>
          sort (reactants parsed1) = sort (reactants parsed2) \<and>
          sort (products parsed1) = sort (products parsed2)
      | _ \<Rightarrow> False)"

subsection \<open>Fuzzy comparison of text\<close>

fun next_row_cells :: "nat \<Rightarrow> jsstring \<Rightarrow> nat \<Rightarrow> nat \<Rightarrow> nat list \<Rightarrow> nat list" where
  \<comment> \<open>the inner loop over \<open>i\<close>: \<open>left\<close> is \<open>matrix[j][i - 1]\<close>, \<open>diag\<close> is
      \<open>matrix[j - 1][i - 1]\<close>, and the list holds \<open>matrix[j - 1][i]\<close> onwards\<close>
  "next_row_cells c2 [] left diag ups = []"
| "next_row_cells c2 (c1 # cs) left diag [] = []"
| "next_row_cells c2 (c1 # cs) left diag (up # ups) =
     (let indicator = (if c1 = c2 then 0 else 1);
          cell = min (min (left + 1) (up + 1)) (diag + indicator)
      in cell # next_row_cells c2 cs cell up ups)"

definition next_row :: "jsstring \<Rightarrow> nat \<Rightarrow> nat \<Rightarrow> nat list \<Rightarrow> nat list" where
  \<comment> \<open>row \<open>j\<close> of the matrix from row \<open>j - 1\<close>; \<open>matrix[j][0] = j\<close>\<close>
  "next_row str1 c2 j prev =
     (case prev of [] \<Rightarrow> [j] | d # ups \<Rightarrow> j # next_row_cells c2 str1 j d ups)"

fun matrix_rows :: "jsstring \<Rightarrow> jsstring \<Rightarrow> nat \<Rightarrow> nat list \<Rightarrow> nat list" where
  \<comment> \<open>the outer loop over \<open>j\<close>; returns the last row\<close>
  "matrix_rows str1 [] j prev = prev"
| "matrix_rows str1 (c2 # cs) j prev = matrix_rows str1 cs (Suc j) (next_row str1 c2 j prev)"

definition levenshteinDistance :: "jsstring \<Rightarrow> jsstring \<Rightarrow> nat" where
  \<comment> \<open>\<open>matrix[str2.length][str1.length]\<close>; row 0 is \<open>0, 1, ..., str1.length\<close>\<close>
  "levenshteinDistance str1 str2 = last (matrix_rows str1 str2 1 [0 ..< Suc (length str1)])"

definition calculateSimilarity :: "jsstring \<Rightarrow> jsstring \<Rightarrow> rat" where
  "calculateSimilarity str1 str2 =
     (let longer = (if length str1 > length str2 then str1 else str2);
          shorter = (if length str1 > length str2 then str2 else str1)
      in if length longer = 0 then 1
         else (of_nat (length longer) - of_nat (levenshteinDistance longer shorter))
              / of_nat (length longer))"

definition clean_text :: "jsstring \<Rightarrow> jsstring" where
  \<comment> \<open>\<open>text.toLowerCase().replace(/[^\w]/g, '')\<close>\<close>
  "clean_text t = filter is_word (toLowerCase t)"

definition fuzzyCompareText :: "jsstring \<Rightarrow> jsstring \<Rightarrow> rat \<Rightarrow> bool" where
  "fuzzyCompareText text1 text2 tolerance =
     (let clean1 = clean_text text1; clean2 = clean_text text2
      in if clean1 = clean2 then True
         else calculateSimilarity clean1 clean2 \<ge> tolerance)"

subsection \<open>Numbers in free text\<close>

datatype jsnumber = NaN | Finite rat

definition is_numeric_unit :: "nat \<Rightarrow> bool" where
  \<comment> \<open>\<open>[\d.]\<close>\<close>
  "is_numeric_unit c \<longleftrightarrow> is_digit c \<or> c = 46"

definition parseFloat :: "jsstring \<Rightarrow> jsnumber" where
  \<comment> \<open>on a string of digits and dots: the longest prefix that is a decimal literal\<close>
  "parseFloat m =
     (let ip = takeWhile is_digit m;
          after = dropWhile is_digit m;
          fp = (case after of [] \<Rightarrow> [] | c # cs \<Rightarrow> if c = 46 then takeWhile is_digit cs else [])
      in if ip = [] \<and> fp = [] then NaN
         else Finite (of_nat (digits_value 0 ip) + of_nat (digits_value 0 fp) / 10 ^ length fp))"

definition extractNumericValue :: "jsstring \<Rightarrow> jsnumber option" where
  \<comment> \<open>\<open>text.match(/[\d.]+/)\<close>: the first maximal run of digits and dots\<close>
  "extractNumericValue t =
     (case takeWhile is_numeric_unit (dropWhile (\<lambda>c. \<not> is_numeric_unit c) t) of
        [] \<Rightarrow> None
      | c # cs \<Rightarrow> Some (parseFloat (c # cs)))"


section \<open>Grading engine\<close>

text \<open>
  The class \<open>MarkingEngine\<close> of \<open>services/marking-engine.ts\<close>, with the interfaces of
  \<open>types/index.ts\<close> it works on. Marks are integers. The records carry the fields the
  engine reads; an optional field is an \<open>option\<close>, and the optional booleans
  \<open>balanceRequired\<close> and \<open>stateSymbolsRequired\<close>, only ever tested for truth, are
  \<open>False\<close> when absent. The field \<open>type\<close> is a string at run time (the parser stores
  whatever the language model returned), so it is a string here.
\<close>

record MarkingPoint =
  id_mp :: jsstring
  marks :: int
  criteria :: jsstring
  keywords_mp :: "jsstring list option"

record Question =
  id_q :: jsstring
  maxMarks :: int
  type_q :: jsstring
  correctAnswer :: "jsstring option"
  acceptedAnswers :: "jsstring list option"
  correctEquation :: "jsstring option"
  markingPoints :: "MarkingPoint list"
  balanceRequired :: bool
  stateSymbolsRequired :: bool

record MarkingRules =
  listPenalty :: bool
  consequentialMarking :: bool
  spellingTolerance :: jsstring
  chemicalFormulaTolerance :: jsstring

record MarkschemeContent =
  version :: jsstring
  questions :: "Question list"
  markingRules :: MarkingRules

record PointResult =
  id_pr :: jsstring
  awarded :: bool
  reason :: jsstring

record MarkingResultData =
  questionId :: jsstring
  studentAnswer :: jsstring
  marksAwarded :: int
  maxMarks :: int
  feedback :: jsstring
  markingPoints :: "PointResult list"
  isCorrect :: bool
  confidence :: rat

text \<open>The answer of the language model to one marking request (\<open>openaiService.ts\<close>).\<close>

record BreakdownPoint =
  point :: jsstring
  awarded :: bool
  reason :: jsstring

record MarkingResult =
  score :: int
  maxScore :: int
  feedback :: jsstring
  breakdown :: "BreakdownPoint list"

subsection \<open>Helpers of the engine\<close>

definition initial_points :: "Question \<Rightarrow> jsstring \<Rightarrow> PointResult list" where
  \<comment> \<open>\<open>question.markingPoints.map(mp => ({ id: mp.id, awarded: false, reason }))\<close>\<close>
  "initial_points question why =
     map (\<lambda>mp. \<lparr>id_pr = id_mp mp, PointResult.awarded = False, PointResult.reason = why\<rparr>)
       (Question.markingPoints question)"

definition award_all :: "jsstring \<Rightarrow> PointResult list \<Rightarrow> PointResult list" where
  \<comment> \<open>\<open>markingPoints.forEach(mp => { mp.awarded = true; mp.reason = why })\<close>\<close>
  "award_all why ps =
     map (\<lambda>p. \<lparr>id_pr = id_pr p, PointResult.awarded = True, PointResult.reason = why\<rparr>) ps"

definition award_at :: "nat \<Rightarrow> jsstring \<Rightarrow> PointResult list \<Rightarrow> PointResult list" where
  \<comment> \<open>\<open>markingPoints[i].awarded = true; markingPoints[i].reason = why\<close>, for an
      index that the caller has checked\<close>
  "award_at i why ps =
     (if i < length ps
      then ps[i := \<lparr>id_pr = id_pr (ps ! i), PointResult.awarded = True, PointResult.reason = why\<rparr>]
      else ps)"

fun findIndex :: "('a \<Rightarrow> bool) \<Rightarrow> 'a list \<Rightarrow> nat option" where
  \<comment> \<open>\<open>None\<close> is the source's \<open>-1\<close>\<close>
  "findIndex p [] = None"
| "findIndex p (x # xs) =
     (if p x then Some 0 else (case findIndex p xs of None \<Rightarrow> None | Some i \<Rightarrow> Some (Suc i)))"

definition hasWorkingShown :: "jsstring \<Rightarrow> bool" where
  \<comment> \<open>the indicators are \<open>=\<close>, the multiplication sign, the division sign, \<open>+\<close>,
      \<open>-\<close>, \<open>x\<close>, \<open>/\<close> and \<open>*\<close>\<close>
  "hasWorkingShown answer =
     list_ex (\<lambda>indicator. includes_str answer indicator)
       [[61], [215], [247], [43], [45], [120], [47], [42]]"

definition is_formula_separator :: "nat \<Rightarrow> bool" where
  \<comment> \<open>\<open>[\<rightarrow>=+]\<close>\<close>
  "is_formula_separator c \<longleftrightarrow> c = 8594 \<or> c = 61 \<or> c = 43"

fun strip_trailing_group :: "jsstring \<Rightarrow> jsstring" where
  \<comment> \<open>\<open>s.replace(/\([^)]*\)$/, '')\<close>: cut at the first opening bracket whose closing
      bracket is the last code unit, with no closing bracket in between\<close>
  "strip_trailing_group [] = []"
| "strip_trailing_group (c # cs) =
     (if c = 40 \<and> cs \<noteq> [] \<and> last cs = 41 \<and> 41 \<notin> set (butlast cs) then []
      else c # strip_trailing_group cs)"

definition extractFormulas :: "jsstring \<Rightarrow> jsstring list" where
  "extractFormulas equation =
     filter (\<lambda>formula. formula \<noteq> [])
       (map (\<lambda>part. trim (strip_trailing_group (strip_coefficient part)))
          (split_on is_formula_separator equation))"

definition hasCorrectFormulas :: "jsstring \<Rightarrow> jsstring \<Rightarrow> bool" where
  "hasCorrectFormulas studentEquation correctEq =
     (let studentFormulas = extractFormulas studentEquation;
          correctFormulas = extractFormulas correctEq
      in length studentFormulas = length correctFormulas \<and>
         list_all (\<lambda>formula. list_ex (\<lambda>correct. compareFormulas formula correct) correctFormulas)
           studentFormulas)"

definition is_state_class :: "nat \<Rightarrow> bool" where
  \<comment> \<open>the class \<open>[gas|liquid|solid|aqueous|g|l|s|aq]\<close> under the flag \<open>i\<close>: one of the
      letters a d e g i l o q s u in either case, or the bar\<close>
  "is_state_class c \<longleftrightarrow>
     lower_unit c \<in> set [103, 97, 115, 108, 105, 113, 117, 100, 111, 101] \<and> c < 128 \<or> c = 124"

fun hasStateSymbols :: "jsstring \<Rightarrow> bool" where
  \<comment> \<open>\<open>/\([gas|liquid|solid|aqueous|g|l|s|aq]\)/i.test(equation)\<close>\<close>
  "hasStateSymbols (a # b # c # rest) =
     ((a = 40 \<and> is_state_class b \<and> c = 41) \<or> hasStateSymbols (b # c # rest))"
| "hasStateSymbols rest = False"

definition generateCalculationFeedback :: "bool \<Rightarrow> int \<Rightarrow> int \<Rightarrow> jsstring" where
  "generateCalculationFeedback correct awardedMarks maxM =
     (if correct then js ''Correct calculation and final answer''
      else if awardedMarks > 0
      then js ''Partial credit for correct method, but check your final answer''
      else js ''Incorrect answer. Check your calculation method and units'')"

definition generateEquationFeedback ::
  "bool \<Rightarrow> ChemicalEquation option \<Rightarrow> Question \<Rightarrow> jsstring" where
  "generateEquationFeedback correct parsedEquation question =
     (if correct then js ''Correct chemical equation''
      else (case parsedEquation of
              Some parsed \<Rightarrow>
                (let issues1 = (if balanceRequired question \<and> \<not> isBalanced parsed
                                then [js ''equation is not balanced''] else []);
                     issues2 = (if stateSymbolsRequired question \<and>
                                   \<not> hasStateSymbols (case correctEquation question of
                                                         None \<Rightarrow> [] | Some e \<Rightarrow> e)
                                then [js ''missing state symbols''] else [])
                 in js ''Partially correct, but '' @ join (js '' and '') (issues1 @ issues2))
            | None \<Rightarrow> js ''Invalid chemical equation format''))"

definition generateShortAnswerFeedback :: "bool \<Rightarrow> jsstring \<Rightarrow> Question \<Rightarrow> jsstring" where
  "generateShortAnswerFeedback correct answer question =
     (if correct then js ''Correct answer''
      else js ''Incorrect or incomplete answer. Review the key concepts for this question'')"

definition generateExtendedResponseFeedback :: "int \<Rightarrow> int \<Rightarrow> jsstring" where
  \<comment> \<open>with \<open>maxMarks = 0\<close> the quotient is \<open>Infinity\<close> for positive marks and \<open>NaN\<close> or
      \<open>-Infinity\<close> otherwise\<close>
  "generateExtendedResponseFeedback awardedMarks maxM =
     (let good = js ''Good response covering most key points'';
          lacking = js ''Response lacks key concepts and detail required for this question''
      in if maxM = 0 then (if awardedMarks > 0 then good else lacking)
         else (let percentage = (of_int awardedMarks / of_int maxM) * (100 :: rat)
               in if percentage \<ge> 80 then good
                  else if percentage \<ge> 60
                  then js ''Adequate response but missing some important details''
                  else if percentage \<ge> 40
                  then js ''Basic response with some correct points, but needs more detail''
                  else lacking))"


subsection \<open>One marking function for each question type\<close>

definition markMultipleChoice :: "Question \<Rightarrow> jsstring \<Rightarrow> MarkingResultData" where
  "markMultipleChoice question answer =
     (let cleanStudentAnswer = trim (toUpperCase answer);
          correct = (case correctAnswer question of
                       None \<Rightarrow> False
                     | Some a \<Rightarrow> toUpperCase a = cleanStudentAnswer)
      in \<lparr>questionId = id_q question,
          studentAnswer = answer,
          marksAwarded = (if correct then Question.maxMarks question else 0),
          maxMarks = Question.maxMarks question,
          feedback =
            (if correct then js ''Correct answer''
             else js ''Incorrect. The correct answer is '' @
                  (case correctAnswer question of
                     None \<Rightarrow> js ''undefined'' | Some a \<Rightarrow> toUpperCase a)),
          markingPoints =
            [\<lparr>id_pr = js ''MC1'', PointResult.awarded = correct,
              PointResult.reason = (if correct then js ''Correct multiple choice answer''
                                    else js ''Incorrect answer'')\<rparr>],
          isCorrect = correct,
          confidence = 1\<rparr>)"

definition numeric_close :: "jsnumber \<Rightarrow> jsnumber \<Rightarrow> bool" where
  \<comment> \<open>\<open>Math.abs(a - b) < 0.01\<close>, false as soon as one side is \<open>NaN\<close>\<close>
  "numeric_close a b =
     (case a of NaN \<Rightarrow> False
      | Finite x \<Rightarrow> (case b of NaN \<Rightarrow> False | Finite y \<Rightarrow> \<bar>x - y\<bar> < 1 / 100))"

definition markCalculation ::
  "Question \<Rightarrow> jsstring \<Rightarrow> MarkschemeContent \<Rightarrow> MarkingResultData" where
  "markCalculation question answer markscheme =
     (let numericValue = extractNumericValue answer;
          points0 = initial_points question [];
          matched =
            (case acceptedAnswers question of
               None \<Rightarrow> False
             | Some accepted \<Rightarrow>
                 (case numericValue of
                    None \<Rightarrow> False
                  | Some nv \<Rightarrow>
                      list_ex (\<lambda>acceptedAnswer.
                                 case extractNumericValue acceptedAnswer of
                                   None \<Rightarrow> False
                                 | Some av \<Rightarrow> numeric_close nv av) accepted));
          marks1 = (if matched then Question.maxMarks question else 0);
          points1 = (if matched then award_all (js ''Correct calculation and answer'') points0
                     else points0);
          method_only = (marks1 = 0 \<and> hasWorkingShown answer);
          marks2 = (if method_only then Question.maxMarks question div 2 else marks1);
          points2 = (if method_only then award_at 0 (js ''Correct method shown'') points1
                     else points1);
          correct = (marks2 = Question.maxMarks question)
      in \<lparr>questionId = id_q question,
          studentAnswer = answer,
          marksAwarded = marks2,
          maxMarks = Question.maxMarks question,
          feedback = generateCalculationFeedback correct marks2 (Question.maxMarks question),
          markingPoints = points2,
          isCorrect = correct,
          confidence = 8 / 10\<rparr>)"

definition equation_sub_points ::
  "Question \<Rightarrow> jsstring \<Rightarrow> ChemicalEquation \<Rightarrow> PointResult list \<Rightarrow> int \<times> PointResult list" where
  \<comment> \<open>the branch \<open>else if (parsedEquation)\<close>: three independent sub-points, one mark each\<close>
  "equation_sub_points question answer parsed points0 =
     (let formulas_ok =
            (0 < length points0 \<and>
             hasCorrectFormulas answer
               (case correctEquation question of None \<Rightarrow> [] | Some e \<Rightarrow> e));
          marks1 = (if formulas_ok then 1 else 0);
          points1 = (if formulas_ok then award_at 0 (js ''Correct chemical formulas'') points0
                     else points0);
          balance_ok = (1 < length points0 \<and> balanceRequired question \<and> isBalanced parsed);
          marks2 = (if balance_ok then marks1 + 1 else marks1);
          points2 = (if balance_ok then award_at 1 (js ''Equation is balanced'') points1
                     else points1);
          states_ok = (2 < length points0 \<and> stateSymbolsRequired question \<and>
                       hasStateSymbols answer);
          marks3 = (if states_ok then marks2 + 1 else marks2);
          points3 = (if states_ok then award_at 2 (js ''State symbols included'') points2
                     else points2)
      in (marks3, points3))"

definition markChemicalEquation ::
  "Question \<Rightarrow> jsstring \<Rightarrow> MarkschemeContent \<Rightarrow> MarkingResultData" where
  "markChemicalEquation question answer markscheme =
     (let points0 = initial_points question [];
          parsedEquation = parseEquation answer;
          full = (case correctEquation question of
                    None \<Rightarrow> False
                  | Some e \<Rightarrow> e \<noteq> [] \<and> compareEquations answer e);
          (awardedMarks, points) =
            (if full
             then (Question.maxMarks question, award_all (js ''Correct chemical equation'') points0)
             else (case parsedEquation of
                     Some parsed \<Rightarrow> equation_sub_points question answer parsed points0
                   | None \<Rightarrow> (0, points0)));
          correct = (awardedMarks = Question.maxMarks question)
      in \<lparr>questionId = id_q question,
          studentAnswer = answer,
          marksAwarded = awardedMarks,
          maxMarks = Question.maxMarks question,
          feedback = generateEquationFeedback correct parsedEquation question,
          markingPoints = points,
          isCorrect = correct,
          confidence = 85 / 100\<rparr>)"

definition short_answer_step ::
  "jsstring \<Rightarrow> int \<times> PointResult list \<Rightarrow> MarkingPoint \<Rightarrow> int \<times> PointResult list" where
  \<comment> \<open>the body of the loop over \<open>question.markingPoints\<close> in \<open>markShortAnswer\<close>\<close>
  "short_answer_step answer state mp =
     (case keywords_mp mp of
        None \<Rightarrow> state
      | Some ks \<Rightarrow>
          if list_ex (\<lambda>keyword. includes_str (toLowerCase answer) (toLowerCase keyword)) ks
          then (case findIndex (\<lambda>p. id_pr p = id_mp mp) (snd state) of
                  None \<Rightarrow> state
                | Some pointIndex \<Rightarrow>
                    (fst state + marks mp,
                     award_at pointIndex (js ''Contains required keywords'') (snd state)))
          else state)"

definition markShortAnswer ::
  "Question \<Rightarrow> jsstring \<Rightarrow> MarkschemeContent \<Rightarrow> MarkingResultData" where
  "markShortAnswer question answer markscheme =
     (let points0 = initial_points question [];
          tolerance = (if spellingTolerance (markingRules markscheme) = js ''strict''
                       then 95 / 100 else 8 / 10);
          matched =
            (case acceptedAnswers question of
               None \<Rightarrow> False
             | Some accepted \<Rightarrow>
                 list_ex (\<lambda>acceptedAnswer. fuzzyCompareText answer acceptedAnswer tolerance)
                   accepted);
          marks1 = (if matched then Question.maxMarks question else 0);
          points1 = (if matched then award_all (js ''Answer matches expected response'') points0
                     else points0);
          (awardedMarks, points) =
            (if marks1 = 0 \<and> length (Question.markingPoints question) > 0
             then foldl (short_answer_step answer) (marks1, points1)
                    (Question.markingPoints question)
             else (marks1, points1));
          correct = (awardedMarks = Question.maxMarks question)
      in \<lparr>questionId = id_q question,
          studentAnswer = answer,
          marksAwarded = awardedMarks,
          maxMarks = Question.maxMarks question,
          feedback = generateShortAnswerFeedback correct answer question,
          markingPoints = points,
          isCorrect = correct,
          confidence = 75 / 100\<rparr>)"

definition extended_response_step ::
  "jsstring \<Rightarrow> int \<times> PointResult list \<Rightarrow> MarkingPoint \<Rightarrow> int \<times> PointResult list" where
  \<comment> \<open>the body of the loop in \<open>markExtendedResponse\<close>; the threshold is
      \<open>Math.ceil(mp.keywords.length * 0.6)\<close>\<close>
  "extended_response_step answer state mp =
     (case keywords_mp mp of
        None \<Rightarrow> state
      | Some ks \<Rightarrow>
          (let keywordCount =
                 length (filter (\<lambda>keyword. includes_str (toLowerCase answer) (toLowerCase keyword)) ks);
               threshold = (3 * length ks + 4) div 5
           in if keywordCount \<ge> threshold
              then (case findIndex (\<lambda>p. id_pr p = id_mp mp) (snd state) of
                      None \<Rightarrow> state
                    | Some pointIndex \<Rightarrow>
                        (fst state + marks mp,
                         award_at pointIndex
                           (js ''Found '' @ show_nat keywordCount @ js ''/'' @
                            show_nat (length ks) @ js '' key concepts'')
                           (snd state)))
              else state))"

definition markExtendedResponse ::
  "Question \<Rightarrow> jsstring \<Rightarrow> MarkschemeContent \<Rightarrow> MarkingResultData" where
  "markExtendedResponse question answer markscheme =
     (let points0 = initial_points question [];
          (awardedMarks, points) =
            foldl (extended_response_step answer) (0, points0) (Question.markingPoints question);
          correct = (of_int awardedMarks \<ge> of_int (Question.maxMarks question) * (8 / 10 :: rat))
      in \<lparr>questionId = id_q question,
          studentAnswer = answer,
          marksAwarded = awardedMarks,
          maxMarks = Question.maxMarks question,
          feedback = generateExtendedResponseFeedback awardedMarks (Question.maxMarks question),
          markingPoints = points,
          isCorrect = correct,
          confidence = 65 / 100\<rparr>)"

definition markGeneric :: "Question \<Rightarrow> jsstring \<Rightarrow> MarkingResultData" where
  "markGeneric question answer =
     \<lparr>questionId = id_q question,
      studentAnswer = answer,
      marksAwarded = 0,
      maxMarks = Question.maxMarks question,
      feedback = js ''Unable to automatically mark this question type'',
      markingPoints = initial_points question (js ''Manual marking required''),
      isCorrect = False,
      confidence = 0\<rparr>"

subsection \<open>The language-model fallback and the dispatch\<close>

text \<open>
  The call to the language model is a parameter: a function from the question, the answer
  and the mark scheme (all that the request is built from) to the parsed reply, or \<open>None\<close>
  when the call throws or the reply cannot be used. The environment variable
  \<open>USE_OPENAI_MARKING\<close> is the Boolean parameter \<open>useOpenAI\<close>.
\<close>

type_synonym language_model = "Question \<Rightarrow> jsstring \<Rightarrow> MarkschemeContent \<Rightarrow> MarkingResult option"

fun ai_points :: "nat \<Rightarrow> BreakdownPoint list \<Rightarrow> PointResult list" where
  \<comment> \<open>\<open>result.breakdown.map((point, index) => ({ id: `AI_${index + 1}`, ... }))\<close>\<close>
  "ai_points index [] = []"
| "ai_points index (b # bs) =
     \<lparr>id_pr = js ''AI_'' @ show_nat (index + 1),
      PointResult.awarded = BreakdownPoint.awarded b,
      PointResult.reason = BreakdownPoint.reason b\<rparr> # ai_points (Suc index) bs"

definition markWithOpenAI ::
  "language_model \<Rightarrow> Question \<Rightarrow> jsstring \<Rightarrow> MarkschemeContent \<Rightarrow> MarkingResultData" where
  "markWithOpenAI ai question answer markscheme =
     (case ai question answer markscheme of
        Some result \<Rightarrow>
          \<lparr>questionId = id_q question,
           studentAnswer = answer,
           marksAwarded = score result,
           maxMarks = maxScore result,
           feedback = MarkingResult.feedback result,
           markingPoints = ai_points 0 (breakdown result),
           isCorrect = (score result = maxScore result),
           confidence = 9 / 10\<rparr>
      | None \<Rightarrow>
          \<lparr>questionId = id_q question,
           studentAnswer = answer,
           marksAwarded = 0,
           maxMarks = Question.maxMarks question,
           feedback = js ''Unable to mark using AI - please review manually'',
           markingPoints = initial_points question (js ''AI marking failed''),
           isCorrect = False,
           confidence = 0\<rparr>)"

definition markQuestion ::
  "bool \<Rightarrow> language_model \<Rightarrow> Question \<Rightarrow> jsstring \<Rightarrow> MarkschemeContent \<Rightarrow> MarkingResultData" where
  "markQuestion useOpenAI ai question answer markscheme =
     (let cleanAnswer = trim answer
      in if cleanAnswer = [] then
           \<lparr>questionId = id_q question,
            studentAnswer = cleanAnswer,
            marksAwarded = 0,
            maxMarks = Question.maxMarks question,
            feedback = js ''No answer provided'',
            markingPoints = initial_points question (js ''No answer provided''),
            isCorrect = False,
            confidence = 1\<rparr>
         else if useOpenAI then markWithOpenAI ai question cleanAnswer markscheme
         else if type_q question = js ''multiple_choice''
         then markMultipleChoice question cleanAnswer
         else if type_q question = js ''calculation''
         then markCalculation question cleanAnswer markscheme
         else if type_q question = js ''chemical_equation''
         then markChemicalEquation question cleanAnswer markscheme
         else if type_q question = js ''short_answer''
         then markShortAnswer question cleanAnswer markscheme
         else if type_q question = js ''extended_response''
         then markExtendedResponse question cleanAnswer markscheme
         else markGeneric question cleanAnswer)"

subsection \<open>Totals and grade\<close>

record SubmissionTotals =
  totalScore :: int
  maxScore :: int
  percentage :: rat

definition submission_totals :: "MarkingResultData list \<Rightarrow> SubmissionTotals" where
  \<comment> \<open>the three lines after the loop of \<open>markSubmission\<close>\<close>
  "submission_totals results =
     (let total = foldl (\<lambda>sum r. sum + marksAwarded r) 0 results;
          maxS = foldl (\<lambda>sum r. sum + MarkingResultData.maxMarks r) 0 results
      in \<lparr>totalScore = total,
          maxScore = maxS,
          percentage = (if maxS > 0 then (of_int total / of_int maxS) * 100 else 0)\<rparr>)"

definition calculateGrade :: "rat \<Rightarrow> jsstring" where
  \<comment> \<open>the same function in \<open>routes/marking.ts\<close> and in \<open>openaiService.ts\<close>\<close>
  "calculateGrade p =
     (if p \<ge> 80 then js ''A*''
      else if p \<ge> 70 then js ''A''
      else if p \<ge> 60 then js ''B''
      else if p \<ge> 50 then js ''C''
      else if p \<ge> 40 then js ''D''
      else if p \<ge> 30 then js ''E''
      else js ''U'')"

subsection \<open>The invariant of a mark scheme question\<close>

text \<open>
  The data model asks that every marking point carries a positive number of marks and that
  the marks of the points of a question sum to at most the maximum of the question. The
  structuring step only warns when this fails, so it is a predicate here, not a type.
\<close>

definition well_formed_marks :: "Question \<Rightarrow> bool" where
  "well_formed_marks question \<longleftrightarrow>
     list_all (\<lambda>mp. 1 \<le> marks mp) (Question.markingPoints question) \<and>
     sum_list (map marks (Question.markingPoints question)) \<le> Question.maxMarks question"

section \<open>Mark scheme structuring\<close>

















section \<open>Text extraction and the submission pipeline\<close>

subsection \<open>The extraction adapter\<close>

text \<open>
  \<open>OCRService.processPDF\<close> (\<open>services/ocr-service.ts\<close>). The provider is a parameter: what
  the upload request returns, what the status request returns at each attempt, and what the
  two download requests return. A thrown \<open>Error\<close> is \<open>Inl\<close> of its message. The waiting
  time between two status requests is not modelled.
\<close>

datatype UploadResponse =
  UploadThrows jsstring
| UploadNotOk jsstring
| UploadNoId jsstring
| UploadOk jsstring

datatype StatusResponse =
  StatusThrows jsstring
| StatusNotOk
| StatusCompleted nat
| StatusError "jsstring option"
| StatusOther

datatype DownloadResponse =
  DownloadThrows
| DownloadNotOk
| DownloadOk jsstring

record Provider =
  upload :: UploadResponse
  status_at :: "nat \<Rightarrow> StatusResponse"
  download_md :: DownloadResponse
  download_mmd :: DownloadResponse

record OCRResult =
  text_ocr :: jsstring
  confidence_ocr :: rat
  pageCount :: nat
  pdfId :: jsstring

definition maxAttempts :: nat where
  "maxAttempts = 30"

function poll :: "(nat \<Rightarrow> StatusResponse) \<Rightarrow> nat \<Rightarrow> jsstring + nat" where
  \<comment> \<open>the loop \<open>while (attempts < maxAttempts)\<close>, started with \<open>attempts\<close>; the result
      is the page count of the completed job, 1 when the provider reports none\<close>
  "poll status attempts =
     (if attempts < maxAttempts then
        (case status attempts of
           StatusThrows message \<Rightarrow> Inl message
         | StatusNotOk \<Rightarrow> poll status (attempts + 1)
         | StatusCompleted pages \<Rightarrow> Inr (if pages = 0 then 1 else pages)
         | StatusError e \<Rightarrow>
             Inl (js ''PDF processing failed: '' @
                  (case e of None \<Rightarrow> js ''Unknown error''
                   | Some m \<Rightarrow> if m = [] then js ''Unknown error'' else m))
         | StatusOther \<Rightarrow> poll status (attempts + 1))
      else Inl (js ''PDF processing timeout''))"
  by pat_completeness auto
termination
  by (relation "measure (\<lambda>(status, attempts). maxAttempts - attempts)") auto

definition download :: "Provider \<Rightarrow> jsstring" where
  \<comment> \<open>step 3: the markdown, else the Mathpix markdown, else the empty text\<close>
  "download provider =
     (case download_md provider of
        DownloadOk content \<Rightarrow> content
      | DownloadThrows \<Rightarrow> []
      | DownloadNotOk \<Rightarrow>
          (case download_mmd provider of DownloadOk content \<Rightarrow> content | _ \<Rightarrow> []))"

definition processPDF_steps :: "Provider \<Rightarrow> nat \<Rightarrow> jsstring + OCRResult" where
  \<comment> \<open>the body of the \<open>try\<close> block; the second argument is \<open>pdfBuffer.length\<close>\<close>
  "processPDF_steps provider bytes =
     (if bytes > 100 * 1024 * 1024 then Inl (js ''PDF file is too large for OCR processing'')
      else (case upload provider of
              UploadThrows message \<Rightarrow> Inl message
            | UploadNotOk errorText \<Rightarrow> Inl (js ''Mathpix PDF upload error: '' @ errorText)
            | UploadNoId response \<Rightarrow>
                Inl (js ''No PDF ID returned from MathPix. Response: '' @ response)
            | UploadOk ident \<Rightarrow>
                (case poll (status_at provider) 0 of
                   Inl message \<Rightarrow> Inl message
                 | Inr pages \<Rightarrow>
                     Inr \<lparr>text_ocr = download provider, confidence_ocr = 1, pageCount = pages,
                          pdfId = ident\<rparr>)))"

definition processPDF :: "Provider \<Rightarrow> nat \<Rightarrow> jsstring + OCRResult" where
  \<comment> \<open>the \<open>catch\<close> block replaces every error by one with a fixed message\<close>
  "processPDF provider bytes =
     (case processPDF_steps provider bytes of
        Inl message \<Rightarrow> Inl (js ''Failed to process PDF with OCR'')
      | Inr result \<Rightarrow> Inr result)"

subsection \<open>Marking a whole submission with the language model\<close>

text \<open>
  \<open>OpenAIMarkingService.markSubmission\<close> (\<open>services/openaiService.ts\<close>), the marking stage of
  the pipeline. The reply of the model is a parameter, \<open>None\<close> when the request throws or
  the reply is not JSON. Totals are taken from the reply; percentage and grade are computed.
\<close>

record SubmissionReply =
  totalScore_reply :: int
  maxScore_reply :: int
  questionResults_reply :: "MarkingResultData list"

record SubmissionMarkingResult =
  totalScore_m :: int
  maxScore_m :: int
  percentage_m :: rat
  grade_m :: jsstring
  questionResults_m :: "MarkingResultData list"

record MarkingService =
  apiKeyConfigured :: bool
  reply :: "jsstring \<Rightarrow> MarkschemeContent \<Rightarrow> SubmissionReply option"

definition markSubmission ::
  "MarkingService \<Rightarrow> jsstring \<Rightarrow> MarkschemeContent \<Rightarrow> jsstring + SubmissionMarkingResult" where
  "markSubmission service studentAnswers markscheme =
     (if \<not> apiKeyConfigured service
      then Inl (js ''OpenAI API key is not configured. Please set OPENAI_API_KEY in your .env file.'')
      else (case reply service studentAnswers markscheme of
              None \<Rightarrow> Inl (js ''Failed to mark submission using OpenAI'')
            | Some r \<Rightarrow>
                (let p = (if maxScore_reply r > 0
                          then (of_int (totalScore_reply r) / of_int (maxScore_reply r)) * 100
                          else 0)
                 in Inr \<lparr>totalScore_m = totalScore_reply r,
                         maxScore_m = maxScore_reply r,
                         percentage_m = p,
                         grade_m = calculateGrade p,
                         questionResults_m = questionResults_reply r\<rparr>)))"

subsection \<open>The pipeline\<close>

text \<open>
  \<open>processSubmissionAsync\<close> (\<open>routes/submissions.ts\<close>). The database is a record of two
  tables: the submissions by their id, each with the content of the mark scheme of its paper
  as the query with \<open>include\<close> returns it, and the marking results, each row with the id of
  its submission. An update of a submission that does not exist throws. The processing time
  (a wall-clock difference) is left out.
\<close>

datatype SubmissionStatus =
  UPLOADED | PROCESSING | OCR_COMPLETE | MARKING | MARKING_COMPLETE | FAILED

record Submission =
  status :: SubmissionStatus
  fileName :: jsstring
  filePath :: jsstring
  paper_markscheme :: "MarkschemeContent option"
  ocrText :: "jsstring option"
  errorMessage :: "jsstring option"
  totalScore_s :: "int option"
  maxScore_s :: "int option"
  percentage_s :: "rat option"
  grade_s :: "jsstring option"

record Database =
  submissions :: "jsstring \<rightharpoonup> Submission"
  markingResults_db :: "(jsstring \<times> MarkingResultData) list"

record Services =
  readFileSync :: "jsstring \<Rightarrow> jsstring + nat"
  provider :: Provider
  markingService :: MarkingService

definition update_submission ::
  "jsstring \<Rightarrow> (Submission \<Rightarrow> Submission) \<Rightarrow> Database \<Rightarrow> Database option" where
  \<comment> \<open>\<open>prisma.submission.update\<close>; \<open>None\<close> when there is no such submission\<close>
  "update_submission submissionId change db =
     (case submissions db submissionId of
        None \<Rightarrow> None
      | Some s \<Rightarrow> Some (db\<lparr>submissions := (submissions db)(submissionId \<mapsto> change s)\<rparr>))"

definition store_results ::
  "jsstring \<Rightarrow> MarkingResultData list \<Rightarrow> Database \<Rightarrow> Database" where
  \<comment> \<open>\<open>deleteMany\<close> of the rows of the submission, then one \<open>create\<close> for each result\<close>
  "store_results submissionId results db =
     db\<lparr>markingResults_db :=
          filter (\<lambda>row. fst row \<noteq> submissionId) (markingResults_db db) @
          map (\<lambda>result. (submissionId, result)) results\<rparr>"

definition pipeline_stages ::
  "Services \<Rightarrow> jsstring \<Rightarrow> Database \<Rightarrow> Database \<times> jsstring option" where
  \<comment> \<open>the \<open>try\<close> block: the database it leaves, and the message of the error that ended it\<close>
  "pipeline_stages services submissionId db =
     (case update_submission submissionId (\<lambda>s. s\<lparr>status := PROCESSING\<rparr>) db of
        None \<Rightarrow> (db, Some (js ''Record to update not found.''))
      | Some db1 \<Rightarrow>
          (case submissions db1 submissionId of
             None \<Rightarrow> (db1, Some (js ''Submission not found''))
           | Some submission \<Rightarrow>
               (case paper_markscheme submission of
                  None \<Rightarrow> (db1, Some (js ''No markscheme available for this paper''))
                | Some markschemeContent \<Rightarrow>
                    (case readFileSync services (filePath submission) of
                       Inl message \<Rightarrow> (db1, Some message)
                     | Inr bytes \<Rightarrow>
                         (case processPDF (provider services) bytes of
                            Inl message \<Rightarrow> (db1, Some message)
                          | Inr ocrResult \<Rightarrow>
                              (let db2 = db1\<lparr>submissions := (submissions db1)(submissionId \<mapsto>
                                            submission\<lparr>status := OCR_COMPLETE,
                                                        ocrText := Some (text_ocr ocrResult)\<rparr>)\<rparr>;
                                   marking = submission\<lparr>status := MARKING,
                                                         ocrText := Some (text_ocr ocrResult)\<rparr>;
                                   db3 = db2\<lparr>submissions := (submissions db2)(submissionId \<mapsto> marking)\<rparr>
                               in case markSubmission (markingService services) (text_ocr ocrResult)
                                         markschemeContent of
                                    Inl message \<Rightarrow> (db3, Some message)
                                  | Inr markingResults \<Rightarrow>
                                      (let db4 = store_results submissionId
                                                   (questionResults_m markingResults) db3
                                       in (db4\<lparr>submissions := (submissions db4)(submissionId \<mapsto>
                                                  marking\<lparr>status := MARKING_COMPLETE,
                                                           totalScore_s := Some (totalScore_m markingResults),
                                                           maxScore_s := Some (maxScore_m markingResults),
                                                           percentage_s := Some (percentage_m markingResults),
                                                           grade_s := Some (grade_m markingResults)\<rparr>)\<rparr>,
                                           None))))))))"

definition detailedErrorMessage :: "jsstring \<Rightarrow> jsstring" where
  \<comment> \<open>the classification in the \<open>catch\<close> block\<close>
  "detailedErrorMessage message =
     (if includes_str message (js ''OpenAI API key'')
      then js ''OpenAI API configuration error. Please check API key setup.''
      else if includes_str message (js ''OpenAI'') then js ''OpenAI marking failed: '' @ message
      else if includes_str message (js ''OCR'') then js ''OCR processing failed: '' @ message
      else message)"

definition processSubmissionAsync :: "Services \<Rightarrow> jsstring \<Rightarrow> Database \<Rightarrow> Database" where
  "processSubmissionAsync services submissionId db =
     (case pipeline_stages services submissionId db of
        (db', None) \<Rightarrow> db'
      | (db', Some message) \<Rightarrow>
          (case update_submission submissionId
                  (\<lambda>s. s\<lparr>status := FAILED, errorMessage := Some (detailedErrorMessage message)\<rparr>) db' of
             None \<Rightarrow> db'
           | Some failed \<Rightarrow> failed))"

section \<open>Reference definitions\<close>

text \<open>
  The definitions of this section are not taken from the source. They say in HOL what the
  specification says in words, so that the functions of the source can be compared with
  them.
\<close>

subsection \<open>Levenshtein distance\<close>

text \<open>
  The distance between the first \<open>i\<close> units of \<open>s\<close> and the first \<open>j\<close> units of \<open>t\<close>, by
  its defining recurrence: delete a unit, insert a unit, or replace one.
\<close>

fun lev :: "'a list \<Rightarrow> 'a list \<Rightarrow> nat \<Rightarrow> nat \<Rightarrow> nat" where
  "lev s t 0 j = j"
| "lev s t (Suc i) 0 = Suc i"
| "lev s t (Suc i) (Suc j) =
     min (min (lev s t i (Suc j) + 1) (lev s t (Suc i) j + 1))
         (lev s t i j + (if s ! i = t ! j then 0 else 1))"

definition edit_distance :: "'a list \<Rightarrow> 'a list \<Rightarrow> nat" where
  "edit_distance s t = lev s t (length s) (length t)"

definition lev_row :: "jsstring \<Rightarrow> jsstring \<Rightarrow> nat \<Rightarrow> nat list" where
  \<comment> \<open>row \<open>j\<close> of the matrix as it should be\<close>
  "lev_row s t j = map (\<lambda>i. lev s t i j) [0 ..< Suc (length s)]"

subsection \<open>Fuzzy comparison as the specification words it\<close>

definition alphanumeric_only :: "jsstring \<Rightarrow> jsstring" where
  \<comment> \<open>"lowercase alphanumeric-only": lower case, then letters and digits only\<close>
  "alphanumeric_only t = filter (\<lambda>c. is_lower c \<or> is_digit c) (toLowerCase t)"

definition fuzzy_compare_alphanumeric :: "jsstring \<Rightarrow> jsstring \<Rightarrow> rat \<Rightarrow> bool" where
  "fuzzy_compare_alphanumeric text1 text2 tolerance =
     (let clean1 = alphanumeric_only text1;
          clean2 = alphanumeric_only text2;
          longer_length = max (length clean1) (length clean2)
      in clean1 = clean2 \<or>
         tolerance \<le> (of_nat longer_length - of_nat (edit_distance clean1 clean2))
                       / of_nat longer_length)"

subsection \<open>Equality of equations as the specification words it\<close>

definition canonical_formula :: "jsstring \<Rightarrow> jsstring" where
  \<comment> \<open>the canonical form that \<open>compareFormulas\<close> compares\<close>
  "canonical_formula formula = toLowerCase (standardizeFormula formula)"

definition equal_after_canonicalization :: "jsstring \<Rightarrow> jsstring \<Rightarrow> bool" where
  \<comment> \<open>both parse, and the sorted lists of canonical compounds match on each side\<close>
  "equal_after_canonicalization eq1 eq2 =
     (case parseEquation eq1 of
        None \<Rightarrow> False
      | Some parsed1 \<Rightarrow>
          (case parseEquation eq2 of
             None \<Rightarrow> False
           | Some parsed2 \<Rightarrow>
               sort (map canonical_formula (reactants parsed1))
                 = sort (map canonical_formula (reactants parsed2)) \<and>
               sort (map canonical_formula (products parsed1))
                 = sort (map canonical_formula (products parsed2))))"

subsection \<open>Balance as the specification words it\<close>

text \<open>
  Every compound of a side counts with its own coefficient: the integer it starts with, or
  1 when it starts with none or with zero. The compounds of a side and the elements of a
  compound are found as the source finds them.
\<close>

definition side_compounds :: "jsstring \<Rightarrow> (nat \<times> jsstring) list" where
  "side_compounds side =
     filter (\<lambda>(k, formula). formula \<noteq> [])
       (map (\<lambda>compound. (if leading_integer compound = 0 then 1 else leading_integer compound,
                           strip_coefficient compound))
          (filter (\<lambda>compound. compound \<noteq> []) (map trim (split_on (\<lambda>c. c = 43) side))))"

definition atoms_in :: "jsstring \<Rightarrow> jsstring \<Rightarrow> nat" where
  \<comment> \<open>the count of an element in one compound\<close>
  "atoms_in element formula =
     sum_list (map (\<lambda>(symbol, countStr). if symbol = element then element_count countStr else 0)
                 (element_matches formula))"

definition side_total :: "(nat \<times> jsstring) list \<Rightarrow> jsstring \<Rightarrow> nat" where
  "side_total compounds element =
     sum_list (map (\<lambda>(k, formula). k * atoms_in element formula) compounds)"

definition balanced_by_own_coefficients :: "jsstring \<Rightarrow> bool" where
  "balanced_by_own_coefficients equation =
     (case equation_match (normalize_equation equation) of
        None \<Rightarrow> False
      | Some (reactantsStr, productsStr) \<Rightarrow>
          (let rs = side_compounds reactantsStr;
               ps = side_compounds productsStr;
               elements = remdups (concat (map (\<lambda>(k, formula). map fst (element_matches formula))
                                             (rs @ ps)))
           in list_all (\<lambda>element. side_total rs element = side_total ps element) elements))"

section \<open>Example inputs\<close>

text \<open>Concrete questions and mark schemes on which the statements below are evaluated.\<close>

definition no_model :: language_model where
  "no_model question answer markscheme = None"

definition example_rules :: MarkingRules where
  "example_rules = \<lparr>listPenalty = True, consequentialMarking = True,
                     spellingTolerance = js ''moderate'', chemicalFormulaTolerance = js ''moderate''\<rparr>"

definition example_scheme :: MarkschemeContent where
  "example_scheme = \<lparr>version = js ''1.0'', questions = [], markingRules = example_rules\<rparr>"

definition point :: "string \<Rightarrow> int \<Rightarrow> string list \<Rightarrow> MarkingPoint" where
  "point name m ks = \<lparr>id_mp = js name, marks = m, criteria = [], keywords_mp = Some (map js ks)\<rparr>"

definition short_question :: Question where
  "short_question =
     \<lparr>id_q = js ''01.1'', maxMarks = 1, type_q = js ''short_answer'', correctAnswer = None,
      acceptedAnswers = None, correctEquation = None,
      markingPoints = [point ''M1'' 1 [''acid''], point ''M2'' 1 [''base'']],
      balanceRequired = False, stateSymbolsRequired = False\<rparr>"

definition two_mark_question :: Question where
  "two_mark_question = short_question\<lparr>Question.maxMarks := 2\<rparr>"

definition extended_question :: Question where
  "extended_question =
     \<lparr>id_q = js ''02.3'', maxMarks = 5, type_q = js ''extended_response'', correctAnswer = None,
      acceptedAnswers = None, correctEquation = None,
      markingPoints = [point ''M1'' 4 [''ionic'']],
      balanceRequired = False, stateSymbolsRequired = False\<rparr>"

definition matching_question :: Question where
  "matching_question = short_question\<lparr>type_q := js ''matching''\<rparr>"

definition result_of :: "string \<Rightarrow> int \<Rightarrow> int \<Rightarrow> MarkingResultData" where
  "result_of name awardedMarks maxM =
     \<lparr>questionId = js name, studentAnswer = [], marksAwarded = awardedMarks, maxMarks = maxM,
      feedback = [], markingPoints = [], isCorrect = (awardedMarks = maxM), confidence = 1\<rparr>"



definition example_submission :: Submission where
  "example_submission =
     \<lparr>status = UPLOADED, fileName = js ''answers.pdf'', filePath = js ''uploads/answers.pdf'',
      paper_markscheme = Some example_scheme, ocrText = None, errorMessage = None,
      totalScore_s = None, maxScore_s = None, percentage_s = None, grade_s = None\<rparr>"

definition example_database :: Database where
  "example_database =
     \<lparr>submissions = [js ''s1'' \<mapsto> example_submission], markingResults_db = []\<rparr>"

definition never_ready :: Provider where
  \<comment> \<open>the upload succeeds and the job stays in progress for ever\<close>
  "never_ready =
     \<lparr>upload = UploadOk (js ''pdf-1''), status_at = (\<lambda>attempt. StatusOther),
      download_md = DownloadNotOk, download_mmd = DownloadNotOk\<rparr>"

definition example_services :: Services where
  "example_services =
     \<lparr>readFileSync = (\<lambda>path. Inr 2048),
      provider = never_ready,
      markingService = \<lparr>apiKeyConfigured = True, reply = (\<lambda>answers scheme. None)\<rparr>\<rparr>"

section \<open>Properties of the grading engine\<close>

lemmas example_defs = short_question_def two_mark_question_def extended_question_def
  matching_question_def point_def example_scheme_def example_rules_def no_model_def

lemmas string_defs = js_def trim_def is_space_def toLowerCase_def lower_unit_def is_upper_def

subsection \<open>Empty answers\<close>




subsection \<open>Unknown question types\<close>



subsection \<open>Bounds on the marks awarded\<close>

lemma short_answer_step_bounds:
  assumes "0 \<le> marks mp"
  shows "fst state \<le> fst (short_answer_step answer state mp) \<and>
         fst (short_answer_step answer state mp) \<le> fst state + marks mp"
  using assms by (simp add: short_answer_step_def split: option.split)

lemma extended_response_step_bounds:
  assumes "0 \<le> marks mp"
  shows "fst state \<le> fst (extended_response_step answer state mp) \<and>
         fst (extended_response_step answer state mp) \<le> fst state + marks mp"
  using assms by (simp add: extended_response_step_def Let_def split: option.split)

lemma foldl_step_bounds:
  assumes step: "\<And>state mp. mp \<in> set mps \<Longrightarrow>
                   fst state \<le> fst (f state mp) \<and> fst (f state mp) \<le> fst state + marks mp"
  shows "fst state \<le> fst (foldl f state mps) \<and>
         fst (foldl f state mps) \<le> fst state + sum_list (map marks mps)"
  using step
proof (induction mps arbitrary: state)
  case Nil
  then show ?case by simp
next
  case (Cons mp mps)
  have one: "fst state \<le> fst (f state mp) \<and> fst (f state mp) \<le> fst state + marks mp"
    using Cons.prems by simp
  have rest: "fst (f state mp) \<le> fst (foldl f (f state mp) mps) \<and>
              fst (foldl f (f state mp) mps) \<le> fst (f state mp) + sum_list (map marks mps)"
    using Cons.IH [of "f state mp"] Cons.prems by simp
  from one rest show ?case by simp
qed

lemma length_le_sum_marks:
  "\<forall>mp\<in>set mps. 1 \<le> marks mp \<Longrightarrow> int (length mps) \<le> sum_list (map marks mps)"
  by (induction mps) auto

lemma sum_marks_nonneg:
  "\<forall>mp\<in>set mps. 1 \<le> marks mp \<Longrightarrow> 0 \<le> sum_list (map marks mps)"
  using length_le_sum_marks [of mps] by simp

lemma equation_sub_points_bounds:
  "0 \<le> fst (equation_sub_points question answer parsed points0) \<and>
   fst (equation_sub_points question answer parsed points0) \<le> int (length points0)"
  by (auto simp add: equation_sub_points_def Let_def simp del: length_greater_0_conv)

lemma length_initial_points [simp]:
  "length (initial_points question why) = length (Question.markingPoints question)"
  by (simp add: initial_points_def)
lemma markShortAnswer_bounds:
  assumes "well_formed_marks question"
  shows "0 \<le> marksAwarded (markShortAnswer question answer markscheme) \<and>
         marksAwarded (markShortAnswer question answer markscheme) \<le> Question.maxMarks question"
proof -
  let ?mps = "Question.markingPoints question"
  have pos: "\<forall>mp\<in>set ?mps. 1 \<le> marks mp" and sum: "sum_list (map marks ?mps) \<le> Question.maxMarks question"
    using assms by (simp_all add: well_formed_marks_def list_all_iff)
  have nonneg: "0 \<le> Question.maxMarks question"
    using sum_marks_nonneg [OF pos] sum by simp
  have fold: "0 \<le> fst (foldl (short_answer_step answer) (0, ps) ?mps) \<and>
              fst (foldl (short_answer_step answer) (0, ps) ?mps) \<le> Question.maxMarks question" for ps
  proof -
    have "fst (0::int, ps) \<le> fst (foldl (short_answer_step answer) (0, ps) ?mps) \<and>
          fst (foldl (short_answer_step answer) (0, ps) ?mps) \<le> fst (0::int, ps) + sum_list (map marks ?mps)"
      by (rule foldl_step_bounds) (use pos in \<open>auto intro!: short_answer_step_bounds\<close>)
    with sum show ?thesis by simp
  qed
  show ?thesis
    using nonneg fold by (simp add: markShortAnswer_def Let_def case_prod_beta)
qed

lemma markExtendedResponse_bounds:
  assumes "well_formed_marks question"
  shows "0 \<le> marksAwarded (markExtendedResponse question answer markscheme) \<and>
         marksAwarded (markExtendedResponse question answer markscheme) \<le> Question.maxMarks question"
proof -
  let ?mps = "Question.markingPoints question"
  have pos: "\<forall>mp\<in>set ?mps. 1 \<le> marks mp" and sum: "sum_list (map marks ?mps) \<le> Question.maxMarks question"
    using assms by (simp_all add: well_formed_marks_def list_all_iff)
  have "fst (0::int, ps) \<le> fst (foldl (extended_response_step answer) (0, ps) ?mps) \<and>
        fst (foldl (extended_response_step answer) (0, ps) ?mps) \<le> fst (0::int, ps) + sum_list (map marks ?mps)" for ps
    by (rule foldl_step_bounds) (use pos in \<open>auto intro!: extended_response_step_bounds\<close>)
  from this [of "initial_points question []"] sum show ?thesis
    by (simp add: markExtendedResponse_def Let_def case_prod_beta)
qed

lemma markChemicalEquation_bounds:
  assumes "well_formed_marks question"
  shows "0 \<le> marksAwarded (markChemicalEquation question answer markscheme) \<and>
         marksAwarded (markChemicalEquation question answer markscheme) \<le> Question.maxMarks question"
proof -
  let ?mps = "Question.markingPoints question"
  have pos: "\<forall>mp\<in>set ?mps. 1 \<le> marks mp" and sum: "sum_list (map marks ?mps) \<le> Question.maxMarks question"
    using assms by (simp_all add: well_formed_marks_def list_all_iff)
  have len: "int (length ?mps) \<le> Question.maxMarks question"
    using length_le_sum_marks [OF pos] sum by simp
  have sub: "0 \<le> fst (equation_sub_points question answer parsed (initial_points question [])) \<and>
             fst (equation_sub_points question answer parsed (initial_points question [])) \<le> Question.maxMarks question" for parsed
    using equation_sub_points_bounds [of question answer parsed "initial_points question []"] len by simp
  from len sub show ?thesis
    by (simp add: markChemicalEquation_def Let_def case_prod_beta split: option.split)
qed

lemma markCalculation_bounds:
  assumes "0 \<le> Question.maxMarks question"
  shows "0 \<le> marksAwarded (markCalculation question answer markscheme) \<and>
         marksAwarded (markCalculation question answer markscheme) \<le> Question.maxMarks question"
proof -
  have "0 \<le> Question.maxMarks question div 2" "Question.maxMarks question div 2 \<le> Question.maxMarks question"
    using assms by simp_all
  with assms show ?thesis by (simp add: markCalculation_def Let_def)
qed

text \<open>
  Claim C1, as the code has it. The engine never clamps: the short-answer and
  extended-response branches add the marks of every marking point whose keywords are found,
  and the equation branch adds one mark for each of up to three sub-points. With the
  language-model switch off, the marks awarded lie between 0 and the maximum of the
  question for every question that satisfies the invariant of the data model (every
  marking point carries at least one mark, and the marks of the points sum to at most the
  maximum).
\<close>

theorem marks_within_bounds:
  assumes "well_formed_marks question"
  shows "0 \<le> marksAwarded (markQuestion False ai question answer markscheme) \<and>
         marksAwarded (markQuestion False ai question answer markscheme)
           \<le> MarkingResultData.maxMarks (markQuestion False ai question answer markscheme) \<and>
         MarkingResultData.maxMarks (markQuestion False ai question answer markscheme)
           = Question.maxMarks question"
proof -
  have nonneg: "0 \<le> Question.maxMarks question"
    using assms sum_marks_nonneg [of "Question.markingPoints question"]
    by (simp add: well_formed_marks_def list_all_iff)
  have max_eq: "MarkingResultData.maxMarks (markQuestion False ai question answer markscheme)
                  = Question.maxMarks question"
    by (simp add: markQuestion_def Let_def markMultipleChoice_def markCalculation_def
        markChemicalEquation_def markShortAnswer_def markExtendedResponse_def markGeneric_def
        case_prod_beta)
  have "0 \<le> marksAwarded (markQuestion False ai question answer markscheme) \<and>
        marksAwarded (markQuestion False ai question answer markscheme) \<le> Question.maxMarks question"
    using nonneg markShortAnswer_bounds [OF assms] markExtendedResponse_bounds [OF assms]
      markChemicalEquation_bounds [OF assms] markCalculation_bounds [OF nonneg]
    by (simp add: markQuestion_def Let_def markMultipleChoice_def markGeneric_def)
  with max_eq show ?thesis by simp
qed

theorem marks_within_bounds_witness:
  "well_formed_marks two_mark_question \<and>
   0 \<le> marksAwarded (markQuestion False no_model two_mark_question (js ''acid base'') example_scheme) \<and>
   marksAwarded (markQuestion False no_model two_mark_question (js ''acid base'') example_scheme)
     \<le> MarkingResultData.maxMarks
          (markQuestion False no_model two_mark_question (js ''acid base'') example_scheme)"
proof -
  have wf: "well_formed_marks two_mark_question"
    by (simp add: well_formed_marks_def example_defs)
  from wf marks_within_bounds [OF wf, of no_model "js ''acid base''" example_scheme]
  show ?thesis by simp
qed

text \<open>
  Claim C1 as stated fails without the invariant: a short-answer question with maximum 1
  and two one-mark points, both of whose keywords occur in the answer, is awarded 2 marks.
\<close>

theorem marks_can_exceed_max:
  "\<not> marksAwarded (markQuestion False no_model short_question (js ''acid base'') example_scheme)
       \<le> MarkingResultData.maxMarks
            (markQuestion False no_model short_question (js ''acid base'') example_scheme)"
  by (simp add: markQuestion_def markShortAnswer_def short_answer_step_def initial_points_def
      award_at_def Let_def example_defs string_defs)

subsection \<open>The flag \<open>isCorrect\<close>\<close>

text \<open>
  Claim C3, as the code has it. For a question with a positive maximum, \<open>isCorrect\<close>
  holds exactly when the marks awarded equal the maximum reported in the result, except
  for a non-empty answer to an extended-response question marked by the deterministic
  engine: there \<open>isCorrect\<close> holds exactly when the marks awarded reach 80% of the maximum.
\<close>

theorem isCorrect_characterisation:
  assumes "0 < Question.maxMarks question"
  shows "isCorrect (markQuestion useOpenAI ai question answer markscheme) \<longleftrightarrow>
         (if \<not> useOpenAI \<and> trim answer \<noteq> [] \<and> type_q question = js ''extended_response''
          then of_int (marksAwarded (markQuestion useOpenAI ai question answer markscheme))
                 \<ge> of_int (MarkingResultData.maxMarks
                              (markQuestion useOpenAI ai question answer markscheme)) * (8 / 10 :: rat)
          else marksAwarded (markQuestion useOpenAI ai question answer markscheme)
                 = MarkingResultData.maxMarks
                     (markQuestion useOpenAI ai question answer markscheme))"
  using assms
  by (simp add: markQuestion_def Let_def markWithOpenAI_def markMultipleChoice_def
      markCalculation_def markChemicalEquation_def markShortAnswer_def markExtendedResponse_def
      markGeneric_def case_prod_beta js_def split: option.split)

theorem isCorrect_characterisation_witness:
  "0 < Question.maxMarks extended_question \<and>
   isCorrect (markQuestion False no_model extended_question (js ''ionic'') example_scheme) \<and>
   marksAwarded (markQuestion False no_model extended_question (js ''ionic'') example_scheme) = 4 \<and>
   MarkingResultData.maxMarks
     (markQuestion False no_model extended_question (js ''ionic'') example_scheme) = 5"
proof -
  have pos: "0 < Question.maxMarks extended_question" by (simp add: example_defs)
  have m: "marksAwarded (markQuestion False no_model extended_question (js ''ionic'') example_scheme) = 4"
    by (simp add: markQuestion_def markExtendedResponse_def extended_response_step_def
        initial_points_def award_at_def Let_def example_defs string_defs)
  have x: "MarkingResultData.maxMarks
     (markQuestion False no_model extended_question (js ''ionic'') example_scheme) = 5"
    by (simp add: markQuestion_def markExtendedResponse_def case_prod_beta Let_def example_defs string_defs)
  have t: "trim (js ''ionic'') \<noteq> []" by (simp add: string_defs)
  have ty: "type_q extended_question = js ''extended_response''" by (simp add: example_defs)
  from isCorrect_characterisation [OF pos, of False no_model "js ''ionic''" example_scheme] m x t ty pos
  show ?thesis by simp
qed

text \<open>
  Claim C3 as stated fails for extended responses: 4 marks out of 5 are reported as
  correct.
\<close>

theorem isCorrect_below_full_marks:
  "\<not> (isCorrect (markQuestion False no_model extended_question (js ''ionic'') example_scheme) \<longleftrightarrow>
      marksAwarded (markQuestion False no_model extended_question (js ''ionic'') example_scheme)
        = MarkingResultData.maxMarks
            (markQuestion False no_model extended_question (js ''ionic'') example_scheme))"
  by (simp add: markQuestion_def markExtendedResponse_def extended_response_step_def
      initial_points_def award_at_def Let_def example_defs string_defs)

section \<open>Properties of the chemistry library\<close>

subsection \<open>Evaluation of the parser\<close>

lemmas chemistry_defs = parseEquation_def normalize_equation_def replace_arrows_def
  equation_match_def is_line_terminator_def is_arrow_or_equals_def parseCompounds_def
  strip_coefficient_def is_digit_def extractCoefficients_def is_side_separator_def
  leading_integer_def checkBalance_def getElementCounts_def add_compound_def coefficient_at_def
  element_count_def add_count_def lookup_count_def is_lower_def

lemma parse_water_balanced:
  "parseEquation (js ''2H2 + O2 = 2H2O'') =
     Some \<lparr>reactants = [js ''H2'', js ''O2''], products = [js ''H2O''],
           coefficients = [2, 1, 2], isBalanced = True\<rparr>"
  by (simp add: chemistry_defs string_defs)

lemma parse_water_unbalanced:
  "parseEquation (js ''H2 + O2 = H2O'') =
     Some \<lparr>reactants = [js ''H2'', js ''O2''], products = [js ''H2O''],
           coefficients = [1, 1, 1], isBalanced = False\<rparr>"
  by (simp add: chemistry_defs string_defs)

lemma parse_water_lower_case:
  "parseEquation (js ''h2 + o2 = h2o'') =
     Some \<lparr>reactants = [js ''h2'', js ''o2''], products = [js ''h2o''],
           coefficients = [1, 1, 1], isBalanced = True\<rparr>"
  by (simp add: chemistry_defs string_defs)

lemma parse_sodium_chloride:
  "parseEquation (js ''2Na+ + 2Cl- = 2NaCl'') =
     Some \<lparr>reactants = [js ''Na'', js ''Cl-''], products = [js ''NaCl''],
           coefficients = [2, 1, 2, 2], isBalanced = False\<rparr>"
  by (simp add: chemistry_defs string_defs)

lemma parse_water_swapped:
  "parseEquation (js ''O2 + 2H2 = 2H2O'') =
     Some \<lparr>reactants = [js ''O2'', js ''H2''], products = [js ''H2O''],
           coefficients = [1, 2, 2], isBalanced = True\<rparr>"
  by (simp add: chemistry_defs string_defs)

subsection \<open>Balance\<close>

text \<open>
  Claim C6. The two equations named in the claim are judged as it says
  (\<open>parse_water_balanced\<close> and \<open>parse_water_unbalanced\<close> above). The claim fails on other
  parseable equations: \<open>extractCoefficients\<close> numbers every piece between two separators,
  the empty ones too, while \<open>parseCompounds\<close> drops the empty pieces, so that after an empty
  piece a compound is paired with the coefficient of its neighbour. In the ionic equation
  below the plus sign of the sodium ion leaves an empty piece: chloride is counted once
  instead of twice, and an equation that is balanced with each compound's own coefficient is
  declared unbalanced.
\<close>

theorem balance_uses_neighbouring_coefficient:
  "parseEquation (js ''2Na+ + 2Cl- = 2NaCl'') =
     Some \<lparr>reactants = [js ''Na'', js ''Cl-''], products = [js ''NaCl''],
           coefficients = [2, 1, 2, 2], isBalanced = False\<rparr> \<and>
   balanced_by_own_coefficients (js ''2Na+ + 2Cl- = 2NaCl'')"
proof -
  have "balanced_by_own_coefficients (js ''2Na+ + 2Cl- = 2NaCl'')"
    by (simp add: balanced_by_own_coefficients_def side_compounds_def atoms_in_def side_total_def
        chemistry_defs string_defs)
  with parse_sodium_chloride show ?thesis by simp
qed

subsection \<open>Equality of equations\<close>

lemma sort_eq_iff_mset: "sort xs = sort ys \<longleftrightarrow> mset xs = mset ys"
proof
  assume "sort xs = sort ys"
  then have "mset (sort xs) = mset (sort ys)" by simp
  then show "mset xs = mset ys" by simp
next
  assume "mset xs = mset ys"
  then show "sort xs = sort ys"
    by (intro properties_for_sort) simp_all
qed


lemma collapse_ws_space_run:
  assumes "ws \<noteq> []" and "list_all is_space ws"
  shows "collapse_ws in_run (ws @ ys) = (if in_run then [] else [32]) @ collapse_ws True ys"
  using assms
proof (induction ws arbitrary: in_run)
  case Nil
  then show ?case by simp
next
  case (Cons c cs)
  show ?case
  proof (cases cs)
    case Nil
    with Cons.prems show ?thesis by simp
  next
    case (Cons d ds)
    then have "collapse_ws True (cs @ ys) = collapse_ws True ys"
      using Cons.IH [of True] Cons.prems by simp
    with Cons.prems show ?thesis by simp
  qed
qed

lemma collapse_ws_after_prefix:
  assumes "\<And>in_run. collapse_ws in_run zs = collapse_ws in_run zs'"
  shows "collapse_ws in_run (xs @ zs) = collapse_ws in_run (xs @ zs')"
  using assms by (induction xs arbitrary: in_run) simp_all

lemma normalize_equation_space_run:
  assumes "ws \<noteq> []" and "ws' \<noteq> []" and "list_all is_space ws" and "list_all is_space ws'"
  shows "normalize_equation (xs @ ws @ ys) = normalize_equation (xs @ ws' @ ys)"
proof -
  have "collapse_ws in_run (ws @ ys) = collapse_ws in_run (ws' @ ys)" for in_run
    using assms by (simp add: collapse_ws_space_run)
  then have "collapse_ws False (xs @ ws @ ys) = collapse_ws False (xs @ ws' @ ys)"
    by (rule collapse_ws_after_prefix)
  then show ?thesis by (simp add: normalize_equation_def)
qed

lemma parseEquation_normalized:
  "normalize_equation eq1 = normalize_equation eq2 \<Longrightarrow> parseEquation eq1 = parseEquation eq2"
  by (simp add: parseEquation_def)

lemma parseEquation_Some_iff:
  "parseEquation equation = Some parsed \<longleftrightarrow>
     (\<exists>r p. equation_match (normalize_equation equation) = Some (r, p) \<and>
            parseCompounds r \<noteq> [] \<and> parseCompounds p \<noteq> [] \<and>
            parsed = \<lparr>reactants = parseCompounds r, products = parseCompounds p,
                       coefficients = extractCoefficients (normalize_equation equation),
                       isBalanced = checkBalance (parseCompounds r) (parseCompounds p)
                                      (extractCoefficients (normalize_equation equation))\<rparr>)"
  by (auto simp: parseEquation_def Let_def split: option.splits)

lemma compareEquations_unfolded:
  "compareEquations eq1 eq2 \<longleftrightarrow>
     (\<exists>r1 p1 r2 p2.
        equation_match (normalize_equation eq1) = Some (r1, p1) \<and>
        equation_match (normalize_equation eq2) = Some (r2, p2) \<and>
        parseCompounds r1 \<noteq> [] \<and> parseCompounds p1 \<noteq> [] \<and>
        parseCompounds r2 \<noteq> [] \<and> parseCompounds p2 \<noteq> [] \<and>
        sort (parseCompounds r1) = sort (parseCompounds r2) \<and>
        sort (parseCompounds p1) = sort (parseCompounds p2))"
proof
  assume "compareEquations eq1 eq2"
  then obtain parsed1 parsed2 where
    one: "parseEquation eq1 = Some parsed1" and two: "parseEquation eq2 = Some parsed2" and
    same: "sort (reactants parsed1) = sort (reactants parsed2)"
          "sort (products parsed1) = sort (products parsed2)"
    by (auto simp: compareEquations_def split: option.splits)
  from one two same show "\<exists>r1 p1 r2 p2.
        equation_match (normalize_equation eq1) = Some (r1, p1) \<and>
        equation_match (normalize_equation eq2) = Some (r2, p2) \<and>
        parseCompounds r1 \<noteq> [] \<and> parseCompounds p1 \<noteq> [] \<and>
        parseCompounds r2 \<noteq> [] \<and> parseCompounds p2 \<noteq> [] \<and>
        sort (parseCompounds r1) = sort (parseCompounds r2) \<and>
        sort (parseCompounds p1) = sort (parseCompounds p2)"
    unfolding parseEquation_Some_iff by fastforce
next
  assume "\<exists>r1 p1 r2 p2.
        equation_match (normalize_equation eq1) = Some (r1, p1) \<and>
        equation_match (normalize_equation eq2) = Some (r2, p2) \<and>
        parseCompounds r1 \<noteq> [] \<and> parseCompounds p1 \<noteq> [] \<and>
        parseCompounds r2 \<noteq> [] \<and> parseCompounds p2 \<noteq> [] \<and>
        sort (parseCompounds r1) = sort (parseCompounds r2) \<and>
        sort (parseCompounds p1) = sort (parseCompounds p2)"
  then show "compareEquations eq1 eq2"
    by (auto simp: compareEquations_def parseEquation_def Let_def)
qed

lemma compare_water_swapped:
  "compareEquations (js ''2H2 + O2 = 2H2O'') (js ''O2 + 2H2 = 2H2O'')"
  unfolding compareEquations_def parse_water_balanced parse_water_swapped
  by (simp add: js_def)

lemma compare_water_lower_case:
  "\<not> compareEquations (js ''H2 + O2 = H2O'') (js ''h2 + o2 = h2o'')"
  unfolding compareEquations_def parse_water_unbalanced parse_water_lower_case
  by (simp add: js_def)

text \<open>
  Claim C7, as the code has it. Two equations are equal exactly when both parse and the
  sorted reactant lists, and the sorted product lists, are identical. The equation is first
  normalized (every run of white space becomes one space, the arrows become the equals sign,
  the ends are trimmed) and cut into its two sides; a compound is a piece of a side between
  two plus signs, trimmed and without its leading integer, and the empty pieces are dropped.
  The order of the compounds is irrelevant: the sorted lists are identical exactly when the
  lists are equal as multisets. The length and the kind of a run of white space are
  irrelevant. The compounds are compared as they are, not in the case-insensitive canonical
  form of \<open>compareFormulas\<close>, so the case of the letters is not irrelevant.
\<close>

theorem compareEquations_characterisation:
  "(compareEquations eq1 eq2 \<longleftrightarrow>
      (\<exists>r1 p1 r2 p2.
         equation_match (normalize_equation eq1) = Some (r1, p1) \<and>
         equation_match (normalize_equation eq2) = Some (r2, p2) \<and>
         parseCompounds r1 \<noteq> [] \<and> parseCompounds p1 \<noteq> [] \<and>
         parseCompounds r2 \<noteq> [] \<and> parseCompounds p2 \<noteq> [] \<and>
         sort (parseCompounds r1) = sort (parseCompounds r2) \<and>
         sort (parseCompounds p1) = sort (parseCompounds p2))) \<and>
   (parseEquation eq1 \<noteq> None \<longleftrightarrow>
      (\<exists>r1 p1. equation_match (normalize_equation eq1) = Some (r1, p1) \<and>
               parseCompounds r1 \<noteq> [] \<and> parseCompounds p1 \<noteq> [])) \<and>
   normalize_equation eq1 = trim (replace_arrows (collapse_ws False eq1)) \<and>
   parseCompounds side =
     filter (\<lambda>compound. compound \<noteq> [])
       (map strip_coefficient
          (filter (\<lambda>compound. compound \<noteq> []) (map trim (split_on (\<lambda>c. c = 43) side)))) \<and>
   (sort (parseCompounds side) = sort (parseCompounds side') \<longleftrightarrow>
      mset (parseCompounds side) = mset (parseCompounds side')) \<and>
   (compareEquations eq1 eq2 \<longleftrightarrow>
      (\<exists>parsed1 parsed2.
         parseEquation eq1 = Some parsed1 \<and> parseEquation eq2 = Some parsed2 \<and>
         mset (reactants parsed1) = mset (reactants parsed2) \<and>
         mset (products parsed1) = mset (products parsed2))) \<and>
   (ws \<noteq> [] \<and> ws' \<noteq> [] \<and> list_all is_space ws \<and> list_all is_space ws' \<longrightarrow>
      compareEquations (xs @ ws @ ys) eq2 = compareEquations (xs @ ws' @ ys) eq2 \<and>
      compareEquations eq2 (xs @ ws @ ys) = compareEquations eq2 (xs @ ws' @ ys)) \<and>
   \<not> compareEquations (js ''H2 + O2 = H2O'') (js ''h2 + o2 = h2o'')"
proof -
  have parses: "parseEquation eq1 \<noteq> None \<longleftrightarrow>
      (\<exists>r1 p1. equation_match (normalize_equation eq1) = Some (r1, p1) \<and>
               parseCompounds r1 \<noteq> [] \<and> parseCompounds p1 \<noteq> [])"
    by (auto simp: parseEquation_def Let_def split: option.splits)
  have compounds: "parseCompounds side =
     filter (\<lambda>compound. compound \<noteq> [])
       (map strip_coefficient
          (filter (\<lambda>compound. compound \<noteq> []) (map trim (split_on (\<lambda>c. c = 43) side))))"
    by (simp add: parseCompounds_def)
  have msets: "compareEquations eq1 eq2 \<longleftrightarrow>
      (\<exists>parsed1 parsed2.
         parseEquation eq1 = Some parsed1 \<and> parseEquation eq2 = Some parsed2 \<and>
         mset (reactants parsed1) = mset (reactants parsed2) \<and>
         mset (products parsed1) = mset (products parsed2))"
    by (auto simp: compareEquations_def sort_eq_iff_mset split: option.splits)
  have runs: "compareEquations (xs @ ws @ ys) eq2 = compareEquations (xs @ ws' @ ys) eq2 \<and>
      compareEquations eq2 (xs @ ws @ ys) = compareEquations eq2 (xs @ ws' @ ys)"
    if "ws \<noteq> []" "ws' \<noteq> []" "list_all is_space ws" "list_all is_space ws'"
  proof -
    have "parseEquation (xs @ ws @ ys) = parseEquation (xs @ ws' @ ys)"
      using that by (intro parseEquation_normalized normalize_equation_space_run)
    then show ?thesis by (simp add: compareEquations_def)
  qed
  show ?thesis
    using compareEquations_unfolded [of eq1 eq2] parses compounds msets runs
      compare_water_lower_case sort_eq_iff_mset [of "parseCompounds side" "parseCompounds side'"]
    by (simp add: normalize_equation_def)
qed

theorem compareEquations_characterisation_witness:
  "compareEquations (js ''2H2'' @ [32, 9] @ js ''+ O2 = 2H2O'') (js ''O2 + 2H2 = 2H2O'')"
proof -
  have same: "js ''2H2'' @ [32] @ js ''+ O2 = 2H2O'' = js ''2H2 + O2 = 2H2O''"
    by (simp add: js_def)
  have spaces: "[32, 9] \<noteq> [] \<and> [32] \<noteq> [] \<and> list_all is_space [32, 9] \<and> list_all is_space [32]"
    by (simp add: is_space_def)
  from compareEquations_characterisation
         [of "js ''2H2''" "js ''O2 + 2H2 = 2H2O''" "[]" "[]" "[32, 9]" "[32]" "js ''2H2''" "js ''+ O2 = 2H2O''"]
       spaces
  have "compareEquations (js ''2H2'' @ [32, 9] @ js ''+ O2 = 2H2O'') (js ''O2 + 2H2 = 2H2O'')
          = compareEquations (js ''2H2'' @ [32] @ js ''+ O2 = 2H2O'') (js ''O2 + 2H2 = 2H2O'')"
    by blast
  with compare_water_swapped show ?thesis
    unfolding same by simp
qed

text \<open>
  Claim C7 as stated fails: two equations that differ only in the case of their letters
  have the same canonical compounds, and \<open>compareEquations\<close> tells them apart.
\<close>

theorem compareEquations_is_case_sensitive:
  "\<not> (compareEquations (js ''H2 + O2 = H2O'') (js ''h2 + o2 = h2o'') \<longleftrightarrow>
      equal_after_canonicalization (js ''H2 + O2 = H2O'') (js ''h2 + o2 = h2o''))"
  unfolding compareEquations_def equal_after_canonicalization_def parse_water_unbalanced
    parse_water_lower_case
  by (simp add: canonical_formula_def standardizeFormula_def remove_ws_def subscript_digit_def
      string_defs)

subsection \<open>The matrix computes the Levenshtein distance\<close>

lemma lev_zero_right [simp]: "lev s t i 0 = i"
  by (cases i) simp_all

lemma next_row_cells_lev:
  assumes "k \<le> length s"
  shows "next_row_cells (t ! j) (drop k s) (lev s t k (Suc j)) (lev s t k j)
           (map (\<lambda>i. lev s t i j) [Suc k ..< Suc (length s)])
         = map (\<lambda>i. lev s t i (Suc j)) [Suc k ..< Suc (length s)]"
  using assms
proof (induction "length s - k" arbitrary: k)
  case 0
  then have "k = length s" by simp
  then show ?case by simp
next
  case (Suc m)
  then have lt: "k < length s" by simp
  have d: "drop k s = s ! k # drop (Suc k) s"
    using lt by (simp add: Cons_nth_drop_Suc)
  have u: "[Suc k ..< Suc (length s)] = Suc k # [Suc (Suc k) ..< Suc (length s)]"
    by (rule upt_conv_Cons) (use lt in simp)
  have ih: "next_row_cells (t ! j) (drop (Suc k) s) (lev s t (Suc k) (Suc j)) (lev s t (Suc k) j)
              (map (\<lambda>i. lev s t i j) [Suc (Suc k) ..< Suc (length s)])
            = map (\<lambda>i. lev s t i (Suc j)) [Suc (Suc k) ..< Suc (length s)]"
    using Suc.hyps(1) [of "Suc k"] Suc.hyps(2) lt by simp
  show ?case
    unfolding d u using ih by (simp add: Let_def)
qed

lemma next_row_lev:
  "next_row s (t ! j) (Suc j) (lev_row s t j) = lev_row s t (Suc j)"
proof -
  have u: "[0 ..< Suc (length s)] = 0 # [Suc 0 ..< Suc (length s)]"
    by (rule upt_conv_Cons) simp
  have "next_row_cells (t ! j) (drop 0 s) (lev s t 0 (Suc j)) (lev s t 0 j)
           (map (\<lambda>i. lev s t i j) [Suc 0 ..< Suc (length s)])
         = map (\<lambda>i. lev s t i (Suc j)) [Suc 0 ..< Suc (length s)]"
    by (rule next_row_cells_lev) simp
  then show ?thesis
    unfolding lev_row_def u by (simp add: next_row_def)
qed

lemma matrix_rows_lev:
  assumes "j \<le> length t"
  shows "matrix_rows s (drop j t) (Suc j) (lev_row s t j) = lev_row s t (length t)"
  using assms
proof (induction "length t - j" arbitrary: j)
  case 0
  then show ?case by simp
next
  case (Suc m)
  then have lt: "j < length t" by simp
  have d: "drop j t = t ! j # drop (Suc j) t"
    using lt by (simp add: Cons_nth_drop_Suc)
  have "matrix_rows s (drop (Suc j) t) (Suc (Suc j)) (lev_row s t (Suc j)) = lev_row s t (length t)"
    using Suc.hyps(1) [of "Suc j"] Suc.hyps(2) lt by simp
  then show ?case
    unfolding d by (simp add: next_row_lev)
qed

lemma levenshteinDistance_is_edit_distance:
  "levenshteinDistance s t = edit_distance s t"
proof -
  have r0: "[0 ..< Suc (length s)] = lev_row s t 0"
    by (simp add: lev_row_def map_upt_eqI)
  have "matrix_rows s t 1 (lev_row s t 0) = lev_row s t (length t)"
    using matrix_rows_lev [of 0 t s] by simp
  then have "levenshteinDistance s t = last (lev_row s t (length t))"
    unfolding levenshteinDistance_def r0 by simp
  also have "\<dots> = lev s t (length s) (length t)"
    by (simp add: lev_row_def)
  finally show ?thesis by (simp add: edit_distance_def)
qed

lemma lev_sym: "lev s t i j = lev t s j i"
  by (induction s t i j rule: lev.induct) (simp_all add: min.commute eq_commute)

lemma edit_distance_sym: "edit_distance s t = edit_distance t s"
  by (simp add: edit_distance_def lev_sym [of s t])

subsection \<open>Fuzzy comparison\<close>

lemma next_row_cells_step:
  "next_row_cells c2 (c1 # cs) left diag (up # ups) =
     min (min (left + 1) (up + 1)) (diag + (if c1 = c2 then 0 else 1)) #
     next_row_cells c2 cs (min (min (left + 1) (up + 1)) (diag + (if c1 = c2 then 0 else 1))) up ups"
  by (simp add: Let_def)

lemmas levenshtein_eval = levenshteinDistance_def next_row_def next_row_cells_step

lemmas fuzzy_defs = fuzzyCompareText_def clean_text_def is_word_def is_lower_def is_digit_def
  calculateSimilarity_def

lemma fuzzy_sodium_chloride:
  "fuzzyCompareText (js ''sodium chlroide'') (js ''sodium chloride'') (8 / 10)"
  by (simp add: fuzzy_defs levenshtein_eval string_defs del: next_row_cells.simps(3))

lemma fuzzy_potassium:
  "\<not> fuzzyCompareText (js ''potassium'') (js ''sodium'') (8 / 10)"
  by (simp add: fuzzy_defs levenshtein_eval string_defs del: next_row_cells.simps(3))

lemma lower_unit_not_upper: "\<not> is_upper (lower_unit c)"
  by (auto simp: lower_unit_def is_upper_def)

lemma clean_text_units:
  "list_all (\<lambda>c. is_lower c \<or> is_digit c \<or> c = 95) (clean_text t)"
  by (auto simp: clean_text_def toLowerCase_def is_word_def list_all_iff lower_unit_not_upper)

lemma similarity_by_edit_distance:
  assumes "clean1 \<noteq> clean2"
  shows "calculateSimilarity clean1 clean2 =
           (of_nat (max (length clean1) (length clean2)) - of_nat (edit_distance clean1 clean2))
           / of_nat (max (length clean1) (length clean2))"
proof (cases "length clean1 > length clean2")
  case True
  then have "length clean1 \<noteq> 0" by auto
  with True show ?thesis
    by (simp add: calculateSimilarity_def levenshteinDistance_is_edit_distance max_def)
next
  case False
  with assms have "length clean2 \<noteq> 0" by auto
  with False show ?thesis
    by (simp add: calculateSimilarity_def levenshteinDistance_is_edit_distance max_def
        edit_distance_sym [of clean2 clean1])
qed

text \<open>
  Claim C8, as the code has it. Both texts are put in lower case and every code unit that
  is not a word character is deleted, which leaves lower-case letters, digits and the
  underscore. The comparison holds exactly when the cleaned texts are equal or the quotient
  of (longer length minus Levenshtein distance) by the longer length reaches the tolerance.
  The two comparisons named in the claim come out as it says.
\<close>

theorem fuzzyCompareText_characterisation:
  "(fuzzyCompareText text1 text2 tolerance \<longleftrightarrow>
      clean_text text1 = clean_text text2 \<or>
      tolerance \<le> (of_nat (max (length (clean_text text1)) (length (clean_text text2)))
                      - of_nat (edit_distance (clean_text text1) (clean_text text2)))
                    / of_nat (max (length (clean_text text1)) (length (clean_text text2)))) \<and>
   clean_text text1 = filter is_word (toLowerCase text1) \<and>
   list_all (\<lambda>c. is_lower c \<or> is_digit c \<or> c = 95) (clean_text text1) \<and>
   fuzzyCompareText (js ''sodium chlroide'') (js ''sodium chloride'') (8 / 10) \<and>
   \<not> fuzzyCompareText (js ''potassium'') (js ''sodium'') (8 / 10)"
proof -
  have "fuzzyCompareText text1 text2 tolerance \<longleftrightarrow>
      clean_text text1 = clean_text text2 \<or>
      tolerance \<le> (of_nat (max (length (clean_text text1)) (length (clean_text text2)))
                      - of_nat (edit_distance (clean_text text1) (clean_text text2)))
                    / of_nat (max (length (clean_text text1)) (length (clean_text text2)))"
    by (cases "clean_text text1 = clean_text text2")
       (simp_all add: fuzzyCompareText_def similarity_by_edit_distance Let_def)
  with clean_text_units [of text1] fuzzy_sodium_chloride fuzzy_potassium
  show ?thesis by (simp add: clean_text_def)
qed

theorem fuzzyCompareText_characterisation_witness:
  "fuzzyCompareText (js ''sodium chlroide'') (js ''sodium chloride'') (8 / 10) \<and>
   \<not> fuzzyCompareText (js ''potassium'') (js ''sodium'') (8 / 10)"
  using fuzzyCompareText_characterisation [of "[]" "[]" 0] by simp

text \<open>
  Claim C8 as stated fails: the underscore is a word character and is kept. With only
  letters and digits kept, \<open>H_2O\<close> and \<open>H2O\<close> would be equal; the code finds them at
  distance 1 in 4, below the tolerance 0.8.
\<close>

theorem fuzzyCompareText_keeps_underscore:
  "\<not> (fuzzyCompareText (js ''H_2O'') (js ''H2O'') (8 / 10) \<longleftrightarrow>
      fuzzy_compare_alphanumeric (js ''H_2O'') (js ''H2O'') (8 / 10))"
proof -
  have code: "\<not> fuzzyCompareText (js ''H_2O'') (js ''H2O'') (8 / 10)"
    by (simp add: fuzzy_defs levenshtein_eval string_defs del: next_row_cells.simps(3))
  have "alphanumeric_only (js ''H_2O'') = alphanumeric_only (js ''H2O'')"
    by (simp add: alphanumeric_only_def is_lower_def is_digit_def string_defs)
  then have "fuzzy_compare_alphanumeric (js ''H_2O'') (js ''H2O'') (8 / 10)"
    by (simp add: fuzzy_compare_alphanumeric_def Let_def)
  with code show ?thesis by simp
qed

section \<open>Properties of the aggregation\<close>

lemma foldl_add_sum_list:
  "foldl (\<lambda>sum r. sum + f r) a rs = a + sum_list (map f rs)" for a :: int
  by (induction rs arbitrary: a) simp_all

lemma sum_maxMarks_nonneg:
  "\<forall>r\<in>set results. 0 \<le> MarkingResultData.maxMarks r \<Longrightarrow>
   0 \<le> sum_list (map MarkingResultData.maxMarks results)"
  by (induction results) auto


text \<open>
  Claim C9. For a list of marking results whose maxima are not negative, the total score is
  the sum of the marks awarded, the maximum score is the sum of the maxima, and the
  percentage is 0 when the maximum score is 0 and total / maximum * 100 otherwise. The
  grade of a percentage follows the fixed bands: at least 80 gives A*, at least 70 A, at
  least 60 B, at least 50 C, at least 40 D, at least 30 E, and anything lower U.
\<close>

theorem totals_and_grade:
  assumes "\<forall>r\<in>set results. 0 \<le> MarkingResultData.maxMarks r"
  shows "totalScore (submission_totals results) = sum_list (map marksAwarded results) \<and>
         SubmissionTotals.maxScore (submission_totals results)
           = sum_list (map MarkingResultData.maxMarks results) \<and>
         percentage (submission_totals results)
           = (if sum_list (map MarkingResultData.maxMarks results) = 0 then 0
              else of_int (sum_list (map marksAwarded results))
                   / of_int (sum_list (map MarkingResultData.maxMarks results)) * 100) \<and>
         (calculateGrade p = js ''A*'' \<longleftrightarrow> 80 \<le> p) \<and>
         (calculateGrade p = js ''A'' \<longleftrightarrow> 70 \<le> p \<and> p < 80) \<and>
         (calculateGrade p = js ''B'' \<longleftrightarrow> 60 \<le> p \<and> p < 70) \<and>
         (calculateGrade p = js ''C'' \<longleftrightarrow> 50 \<le> p \<and> p < 60) \<and>
         (calculateGrade p = js ''D'' \<longleftrightarrow> 40 \<le> p \<and> p < 50) \<and>
         (calculateGrade p = js ''E'' \<longleftrightarrow> 30 \<le> p \<and> p < 40) \<and>
         (calculateGrade p = js ''U'' \<longleftrightarrow> p < 30)"
proof -
  have totals: "totalScore (submission_totals results) = sum_list (map marksAwarded results)"
    "SubmissionTotals.maxScore (submission_totals results)
       = sum_list (map MarkingResultData.maxMarks results)"
    by (simp_all add: submission_totals_def Let_def foldl_add_sum_list)
  have pct: "percentage (submission_totals results)
           = (if sum_list (map MarkingResultData.maxMarks results) = 0 then 0
              else of_int (sum_list (map marksAwarded results))
                   / of_int (sum_list (map MarkingResultData.maxMarks results)) * 100)"
    using sum_maxMarks_nonneg [OF assms]
    by (simp add: submission_totals_def Let_def foldl_add_sum_list)
  have grade: "(calculateGrade p = js ''A*'' \<longleftrightarrow> 80 \<le> p) \<and>
         (calculateGrade p = js ''A'' \<longleftrightarrow> 70 \<le> p \<and> p < 80) \<and>
         (calculateGrade p = js ''B'' \<longleftrightarrow> 60 \<le> p \<and> p < 70) \<and>
         (calculateGrade p = js ''C'' \<longleftrightarrow> 50 \<le> p \<and> p < 60) \<and>
         (calculateGrade p = js ''D'' \<longleftrightarrow> 40 \<le> p \<and> p < 50) \<and>
         (calculateGrade p = js ''E'' \<longleftrightarrow> 30 \<le> p \<and> p < 40) \<and>
         (calculateGrade p = js ''U'' \<longleftrightarrow> p < 30)"
    by (simp add: calculateGrade_def js_def)
  from totals pct grade show ?thesis by simp
qed


theorem totals_and_grade_witness:
  "totalScore (submission_totals [result_of ''01.1'' 1 1, result_of ''01.2'' 3 4]) = 4 \<and>
   SubmissionTotals.maxScore (submission_totals [result_of ''01.1'' 1 1, result_of ''01.2'' 3 4]) = 5 \<and>
   percentage (submission_totals [result_of ''01.1'' 1 1, result_of ''01.2'' 3 4]) = 80 \<and>
   calculateGrade 80 = js ''A*''"
proof -
  have h: "\<forall>r\<in>set [result_of ''01.1'' 1 1, result_of ''01.2'' 3 4]. 0 \<le> MarkingResultData.maxMarks r"
    by (simp add: result_of_def)
  from totals_and_grade [OF h, of 80] show ?thesis
    by (simp add: result_of_def)
qed

section \<open>Properties of the structuring\<close>





section \<open>Properties of the pipeline\<close>

lemma poll_exhausted:
  assumes "\<forall>k. attempts \<le> k \<and> k < maxAttempts \<longrightarrow> st k = StatusNotOk \<or> st k = StatusOther"
  shows "poll st attempts = Inl (js ''PDF processing timeout'')"
  using assms
proof (induction st attempts rule: poll.induct)
  case (1 st attempts)
  show ?case
  proof (cases "attempts < maxAttempts")
    case True
    then have here: "st attempts = StatusNotOk \<or> st attempts = StatusOther"
      using "1.prems" by simp
    have later: "\<forall>k. attempts + 1 \<le> k \<and> k < maxAttempts \<longrightarrow> st k = StatusNotOk \<or> st k = StatusOther"
      using "1.prems" by simp
    from here show ?thesis
    proof
      assume s: "st attempts = StatusNotOk"
      with True "1.IH"(1) [OF True s later] show ?thesis
        by (subst poll.simps) simp
    next
      assume s: "st attempts = StatusOther"
      with True "1.IH"(2) [OF True s later] show ?thesis
        by (subst poll.simps) simp
    qed
  next
    case False
    then show ?thesis by (subst poll.simps) simp
  qed
qed

lemma processPDF_timeout:
  assumes "bytes \<le> 100 * 1024 * 1024" and "upload p = UploadOk ident"
    and "\<forall>k < maxAttempts. status_at p k = StatusNotOk \<or> status_at p k = StatusOther"
  shows "processPDF p bytes = Inl (js ''Failed to process PDF with OCR'')"
proof -
  have "poll (status_at p) 0 = Inl (js ''PDF processing timeout'')"
    by (rule poll_exhausted) (use assms(3) in simp)
  with assms(1,2) show ?thesis
    by (simp add: processPDF_def processPDF_steps_def)
qed

lemma processPDF_error_message:
  "processPDF p bytes = Inl message \<Longrightarrow> message = js ''Failed to process PDF with OCR''"
  by (auto simp: processPDF_def split: sum.splits)

lemma detailedErrorMessage_ocr:
  "detailedErrorMessage (js ''Failed to process PDF with OCR'')
     = js ''OCR processing failed: Failed to process PDF with OCR''"
  by (simp add: detailedErrorMessage_def js_def)

text \<open>
  Claim C2. When the extraction adapter fails for an existing submission whose paper has a
  mark scheme and whose file can be read, the pipeline ends with the database changed in one
  place only: the submission has status FAILED and the error message
  "OCR processing failed: Failed to process PDF with OCR". The extracted text, the scores
  and the table of marking results are as before, so no later stage has run and a
  submission without result rows still has none; the marking service does not occur in the
  final state. An exhausted polling loop is one such failure (\<open>processPDF_timeout\<close>).
\<close>

theorem extraction_failure_marks_failed:
  assumes "submissions db submissionId = Some submission"
    and "paper_markscheme submission = Some markschemeContent"
    and "readFileSync services (filePath submission) = Inr bytes"
    and "processPDF (provider services) bytes = Inl message"
    and "filter (\<lambda>row. fst row = submissionId) (markingResults_db db) = []"
  shows "processSubmissionAsync services submissionId db =
           db\<lparr>submissions := (submissions db)(submissionId \<mapsto>
                 submission\<lparr>status := FAILED,
                             errorMessage :=
                               Some (js ''OCR processing failed: Failed to process PDF with OCR'')\<rparr>)\<rparr> \<and>
         filter (\<lambda>row. fst row = submissionId)
           (markingResults_db (processSubmissionAsync services submissionId db)) = [] \<and>
         js ''OCR processing failed: Failed to process PDF with OCR'' \<noteq> []"
proof -
  have m: "message = js ''Failed to process PDF with OCR''"
    using assms(4) by (rule processPDF_error_message)
  have stages: "pipeline_stages services submissionId db =
          (db\<lparr>submissions := (submissions db)(submissionId \<mapsto> submission\<lparr>status := PROCESSING\<rparr>)\<rparr>,
           Some (js ''Failed to process PDF with OCR''))"
    using assms(1-4) m by (simp add: pipeline_stages_def update_submission_def)
  have final: "processSubmissionAsync services submissionId db =
           db\<lparr>submissions := (submissions db)(submissionId \<mapsto>
                 submission\<lparr>status := FAILED,
                             errorMessage :=
                               Some (js ''OCR processing failed: Failed to process PDF with OCR'')\<rparr>)\<rparr>"
    by (simp add: processSubmissionAsync_def stages update_submission_def detailedErrorMessage_ocr)
  have "js ''OCR processing failed: Failed to process PDF with OCR'' \<noteq> []"
    by (simp add: js_def)
  with final assms(5) show ?thesis by simp
qed

theorem extraction_failure_marks_failed_witness:
  "map_option status (submissions (processSubmissionAsync example_services (js ''s1'') example_database) (js ''s1''))
     = Some FAILED \<and>
   map_option errorMessage (submissions (processSubmissionAsync example_services (js ''s1'') example_database) (js ''s1''))
     = Some (Some (js ''OCR processing failed: Failed to process PDF with OCR'')) \<and>
   markingResults_db (processSubmissionAsync example_services (js ''s1'') example_database) = []"
proof -
  have failed: "processPDF (provider example_services) 2048 = Inl (js ''Failed to process PDF with OCR'')"
    by (rule processPDF_timeout [where ident = "js ''pdf-1''"])
       (simp_all add: example_services_def never_ready_def)
  have "processSubmissionAsync example_services (js ''s1'') example_database =
           example_database\<lparr>submissions := (submissions example_database)(js ''s1'' \<mapsto>
                 example_submission\<lparr>status := FAILED,
                             errorMessage :=
                               Some (js ''OCR processing failed: Failed to process PDF with OCR'')\<rparr>)\<rparr>"
    using extraction_failure_marks_failed [of example_database "js ''s1''" example_submission
        example_scheme example_services 2048 "js ''Failed to process PDF with OCR''"] failed
    by (simp add: example_database_def example_submission_def example_services_def)
  then show ?thesis by (simp add: example_database_def)
qed

end
